theory Spec2Isabelle
  imports Main
begin

section \<open>Data model\<close>

text \<open>
  The module lifecycle manager of the bot: \<^verbatim>\<open>core/module_loader.py\<close> (class
  \<^verbatim>\<open>ModuleLoader\<close>), \<^verbatim>\<open>core/database.py\<close> (the ORM models \<^verbatim>\<open>ModuleRecord\<close>,
  \<^verbatim>\<open>ErrorLog\<close>, \<^verbatim>\<open>Admin\<close>) and the handlers of \<^verbatim>\<open>modules/system/manager.py\<close>.

  An exception object of the libraries (the database layer, \<^verbatim>\<open>subprocess\<close>, the
  Telegram client) is reduced to what the code reads from it:
  \<^verbatim>\<open>type(e).__name__\<close>, \<^verbatim>\<open>str(e)\<close> and \<^verbatim>\<open>traceback.format_exc()\<close>.
\<close>

datatype exception = PyException (exc_type: string) (exc_message: string) (exc_traceback: string)

text \<open>
  Every handler of the source is \<^verbatim>\<open>except Exception\<close>. What a module's own code raises
  is therefore either an instance of \<^verbatim>\<open>Exception\<close>, or an instance of \<^verbatim>\<open>BaseException\<close>
  only (\<^verbatim>\<open>SystemExit\<close> from \<^verbatim>\<open>sys.exit()\<close>, \<^verbatim>\<open>KeyboardInterrupt\<close>, \<^verbatim>\<open>GeneratorExit\<close>,
  \<^verbatim>\<open>asyncio.CancelledError\<close>), which such a handler does not match.
  The database layer and \<^verbatim>\<open>subprocess.run\<close> raise instances of \<^verbatim>\<open>Exception\<close>.

  The handlers format the exception they caught (\<^verbatim>\<open>f"...{e}"\<close>, \<^verbatim>\<open>str(e)\<close>), which
  calls its \<^verbatim>\<open>__str__\<close>; for an exception class defined by a module this is the
  module's own code again. \<open>ExceptionInstance e None\<close> is an instance of
  \<^verbatim>\<open>Exception\<close> whose \<^verbatim>\<open>__str__\<close> returns \<open>exc_message e\<close>;
  \<open>ExceptionInstance e (Some r)\<close> is one whose \<^verbatim>\<open>__str__\<close> raises \<open>r\<close>.
  The exceptions of the libraries are of the first form.
\<close>

datatype raised = ExceptionInstance exception "raised option" | BaseExceptionInstance exception

text \<open>What a call does: it returns a value, or an exception leaves it.\<close>

datatype 'a outcome = Returns 'a | Propagates raised

text \<open>\<^verbatim>\<open>class ModuleInfo\<close> (the descriptor a module's \<^verbatim>\<open>register\<close> returns).\<close>

record ModuleInfo =
  info_name :: string
  description :: string
  commands :: "(string \<times> string) list"
  info_is_system :: bool
  dependencies :: "string list"

text \<open>
  The value \<^verbatim>\<open>await module.register(...)\<close> evaluates to, as far as
  \<^verbatim>\<open>isinstance(module_info, ModuleInfo)\<close> tells.
\<close>

datatype register_value = IsModuleInfo ModuleInfo | NotModuleInfo

text \<open>
  A module artifact (a file on disk), by what loading it does:
  whether \<^verbatim>\<open>importlib.util.spec_from_file_location\<close> finds a loader for it,
  what \<^verbatim>\<open>spec.loader.exec_module\<close> raises, whether the executed module has an attribute
  \<^verbatim>\<open>register\<close>, its module-level attribute \<^verbatim>\<open>DEPENDENCIES\<close> (\<open>None\<close>: no such
  attribute), and what awaiting \<^verbatim>\<open>register(bot, dp, config, localization)\<close> gives.
  \<open>ErrorLog_attr\<close> is what \<^verbatim>\<open>from <module> import ErrorLog\<close> followed by
  \<^verbatim>\<open>await ErrorLog.log_error(...)\<close> does on the module object: \<open>None\<close> when the
  module has no attribute \<^verbatim>\<open>ErrorLog\<close> (the import raises \<^verbatim>\<open>ImportError\<close>),
  \<open>Some None\<close> when the call returns, \<open>Some (Some r)\<close> when it raises \<open>r\<close>.
\<close>

record artifact =
  has_loader :: bool
  exec_module :: "raised option"
  has_register :: bool
  DEPENDENCIES :: "string list option"
  register :: "raised + register_value"
  ErrorLog_attr :: "raised option option"

text \<open>
  An entry of \<^verbatim>\<open>sys.modules\<close>: a module of the host program itself, or the module
  object that \<^verbatim>\<open>load_module\<close> made from an artifact.
\<close>

datatype pymodule = HostModule | ArtifactModule artifact

text \<open>
  A row of table \<^verbatim>\<open>modules\<close> (\<^verbatim>\<open>class ModuleRecord\<close>); \<^verbatim>\<open>name\<close> is unique, so the table
  is a map from names to rows. The surrogate key \<^verbatim>\<open>id\<close> is read nowhere and is left out.
\<close>

record ModuleRecord =
  name :: string
  file_path :: string
  is_system :: bool
  is_active :: bool
  added_at :: nat
  updated_at :: nat

text \<open>A row of table \<^verbatim>\<open>error_logs\<close> (\<^verbatim>\<open>class ErrorLog\<close>).\<close>

record ErrorLog =
  log_module_name :: "string option"
  error_type :: string
  error_message :: string
  traceback :: "string option"
  created_at :: nat

text \<open>
  The lines written through \<^verbatim>\<open>logger\<close>: one constructor for each format string
  of the source, carrying the values interpolated into it.
\<close>

datatype log_message =
    ModuleFileNotFound string
  | CannotLoadSpec string
  | NoRegisterFunction string
  | ModuleLoadedSuccessfully string
  | InvalidModuleInfo string
  | ErrorLoadingModule string exception
  | InstallingDependencies string "string list"
  | FailedToInstall string string
  | DependenciesInstalled string
  | ErrorInstallingDependencies string exception
  | ModuleUnloaded string
  | ErrorAddingModule exception
  | ErrorGettingModule exception
  | ErrorDeletingModule exception
  | ErrorLoggingToDatabase exception
  | ErrorCheckingAdminStatus exception
  | ErrorLoadingModuleFromFile exception
  | ErrorReloadingModule string exception
  | ErrorInLoadModuleHandler exception

datatype level = ERROR | INFO

text \<open>What \<^verbatim>\<open>subprocess.run(..., capture_output=True, text=True, timeout=...)\<close> does.\<close>

datatype run_outcome =
    CompletedProcess (returncode: int) (stdout: string) (stderr: string)
  | RunRaises exception

text \<open>
  The host: the interpreter path \<^verbatim>\<open>sys.executable\<close>, the external installer reached
  through \<^verbatim>\<open>subprocess.run\<close> (argument vector and timeout), \<^verbatim>\<open>config.admin_id\<close>, and
  the download of a Telegram document by its \<^verbatim>\<open>file_id\<close>
  (\<^verbatim>\<open>bot.get_file\<close> followed by \<^verbatim>\<open>bot.download_file\<close>).
\<close>

record host =
  sys_executable :: string
  subprocess_run :: "string list \<Rightarrow> nat \<Rightarrow> run_outcome"
  admin_id :: int
  download_file :: "string \<Rightarrow> exception + artifact"

text \<open>
  The mutable state: the Catalog \<^verbatim>\<open>ModuleLoader.loaded_modules\<close>, \<^verbatim>\<open>sys.modules\<close>,
  the tables \<^verbatim>\<open>modules\<close>, \<^verbatim>\<open>error_logs\<close> and \<^verbatim>\<open>admins\<close>, the files on disk by path,
  the installer invocations made so far, the log, the clock read by
  \<^verbatim>\<open>auto_now\<close>/\<^verbatim>\<open>auto_now_add\<close>, and the faults of the storage: the head of
  \<open>db_faults\<close> says whether the next database operation raises (and what), an empty list
  that none does any more.
\<close>

record world =
  loaded_modules :: "string \<rightharpoonup> ModuleInfo"
  sys_modules :: "string \<rightharpoonup> pymodule"
  modules_table :: "string \<rightharpoonup> ModuleRecord"
  error_logs :: "ErrorLog list"
  admins :: "int set"
  files :: "string \<rightharpoonup> artifact"
  subprocess_calls :: "(string list \<times> nat) list"
  log :: "(level \<times> log_message) list"
  clock :: nat
  db_faults :: "exception option list"

definition logger_error :: "log_message \<Rightarrow> world \<Rightarrow> world" where
  "logger_error m w = w\<lparr>log := log w @ [(ERROR, m)]\<rparr>"

definition logger_info :: "log_message \<Rightarrow> world \<Rightarrow> world" where
  "logger_info m w = w\<lparr>log := log w @ [(INFO, m)]\<rparr>"

text \<open>One database operation: it consumes the head of the fault list.\<close>

definition db_call :: "world \<Rightarrow> exception option \<times> world" where
  "db_call w = (case db_faults w of
                  [] \<Rightarrow> (None, w)
                | f # fs \<Rightarrow> (f, w\<lparr>db_faults := fs\<rparr>))"

section \<open>The Registry and the Error Sink (\<^verbatim>\<open>core/database.py\<close>)\<close>

text \<open>\<^verbatim>\<open>Admin.is_admin\<close>: a failing query is logged and answered \<^verbatim>\<open>False\<close>.\<close>

definition Admin_is_admin :: "int \<Rightarrow> world \<Rightarrow> bool \<times> world" where
  "Admin_is_admin user_id w =
     (case db_call w of
        (Some e, w1) \<Rightarrow> (False, logger_error (ErrorCheckingAdminStatus e) w1)
      | (None, w1) \<Rightarrow> (user_id \<in> admins w1, w1))"

text \<open>
  \<^verbatim>\<open>ModuleRecord.add_module\<close>: \<^verbatim>\<open>get_or_create\<close> by name with defaults
  \<^verbatim>\<open>file_path\<close> and \<^verbatim>\<open>is_system\<close>; a row that existed gets \<^verbatim>\<open>file_path\<close> and
  \<^verbatim>\<open>is_active = True\<close> and is saved (\<^verbatim>\<open>auto_now\<close> sets \<^verbatim>\<open>updated_at\<close>).
  A fault of either operation is logged and raised again.
\<close>

definition add_module :: "string \<Rightarrow> string \<Rightarrow> bool \<Rightarrow> world \<Rightarrow> (exception + ModuleRecord) \<times> world" where
  "add_module nm fp sys w =
     (case db_call w of
        (Some e, w1) \<Rightarrow> (Inl e, logger_error (ErrorAddingModule e) w1)
      | (None, w1) \<Rightarrow>
          (case modules_table w1 nm of
             None \<Rightarrow>
               (let r = \<lparr>name = nm, file_path = fp, is_system = sys, is_active = True,
                         added_at = clock w1, updated_at = clock w1\<rparr>
                in (Inr r, w1\<lparr>modules_table := (modules_table w1)(nm \<mapsto> r)\<rparr>))
           | Some m \<Rightarrow>
               (case db_call w1 of
                  (Some e, w2) \<Rightarrow> (Inl e, logger_error (ErrorAddingModule e) w2)
                | (None, w2) \<Rightarrow>
                    (let r = m\<lparr>file_path := fp, is_active := True, updated_at := clock w2\<rparr>
                     in (Inr r, w2\<lparr>modules_table := (modules_table w2)(nm \<mapsto> r)\<rparr>)))))"

text \<open>\<^verbatim>\<open>ModuleRecord.get_module\<close>: a failing query is logged and answered \<^verbatim>\<open>None\<close>.\<close>

definition get_module :: "string \<Rightarrow> world \<Rightarrow> ModuleRecord option \<times> world" where
  "get_module nm w =
     (case db_call w of
        (Some e, w1) \<Rightarrow> (None, logger_error (ErrorGettingModule e) w1)
      | (None, w1) \<Rightarrow> (modules_table w1 nm, w1))"

text \<open>
  \<^verbatim>\<open>ModuleRecord.delete_module\<close>: deletes the row when there is one and it is not a
  system row; a failing delete is logged and answered \<^verbatim>\<open>False\<close>.
\<close>

definition delete_module :: "string \<Rightarrow> world \<Rightarrow> bool \<times> world" where
  "delete_module nm w =
     (case get_module nm w of
        (None, w1) \<Rightarrow> (False, w1)
      | (Some m, w1) \<Rightarrow>
          if \<not> is_system m then
            (case db_call w1 of
               (Some e, w2) \<Rightarrow> (False, logger_error (ErrorDeletingModule e) w2)
             | (None, w2) \<Rightarrow> (True, w2\<lparr>modules_table := (modules_table w2)(nm := None)\<rparr>))
          else (False, w1))"

text \<open>\<^verbatim>\<open>ErrorLog.log_error\<close>: appends a row; a failing insert is logged only.\<close>

definition log_error :: "string \<Rightarrow> string \<Rightarrow> string option \<Rightarrow> string option \<Rightarrow> world \<Rightarrow> world" where
  "log_error etype emsg mname tb w =
     (case db_call w of
        (Some e, w1) \<Rightarrow> logger_error (ErrorLoggingToDatabase e) w1
      | (None, w1) \<Rightarrow>
          w1\<lparr>error_logs := error_logs w1 @
               [\<lparr>log_module_name = mname, error_type = etype, error_message = emsg,
                 traceback = tb, created_at = clock w1\<rparr>]\<rparr>)"

section \<open>The Loader (\<^verbatim>\<open>core/module_loader.py\<close>)\<close>

text \<open>
  \<^verbatim>\<open>ModuleLoader.unload_module\<close>: removes the Catalog entry and the entry of
  \<^verbatim>\<open>sys.modules\<close>; \<^verbatim>\<open>False\<close> when the name is not in the Catalog.
\<close>

definition unload_module :: "string \<Rightarrow> world \<Rightarrow> bool \<times> world" where
  "unload_module nm w =
     (if nm \<in> dom (loaded_modules w) then
        (True, logger_info (ModuleUnloaded nm)
                 (w\<lparr>loaded_modules := (loaded_modules w)(nm := None),
                    sys_modules := (sys_modules w)(nm := None)\<rparr>))
      else (False, w))"

text \<open>
  The loop of \<^verbatim>\<open>ModuleLoader._install_dependencies\<close>: for each specifier one run of
  \<^verbatim>\<open>[sys.executable, "-m", "pip", "install", dep]\<close> with \<^verbatim>\<open>timeout=300\<close>; a non-zero
  return code logs the specifier with the installer's \<^verbatim>\<open>stderr\<close> and returns \<^verbatim>\<open>False\<close>;
  an exception of the run (\<^verbatim>\<open>TimeoutExpired\<close> among them) reaches the function's handler,
  which logs the module name with the exception and returns \<^verbatim>\<open>False\<close>.
\<close>

definition pip_install :: "host \<Rightarrow> string \<Rightarrow> string list" where
  "pip_install h dep = [sys_executable h, ''-m'', ''pip'', ''install'', dep]"

fun install_each :: "host \<Rightarrow> string list \<Rightarrow> string \<Rightarrow> world \<Rightarrow> bool \<times> world" where
  "install_each h [] mn w = (True, logger_info (DependenciesInstalled mn) w)"
| "install_each h (dep # deps) mn w =
     (let argv = pip_install h dep;
          w1 = w\<lparr>subprocess_calls := subprocess_calls w @ [(argv, 300)]\<rparr>
      in case subprocess_run h argv 300 of
           RunRaises e \<Rightarrow> (False, logger_error (ErrorInstallingDependencies mn e) w1)
         | CompletedProcess rc out err \<Rightarrow>
             if rc \<noteq> 0 then (False, logger_error (FailedToInstall dep err) w1)
             else install_each h deps mn w1)"

text \<open>
  A specifier is installed when its run returns with return code 0; \<open>install_report\<close>
  is the line the loop logs for a specifier that is not.
\<close>

definition installs :: "host \<Rightarrow> string \<Rightarrow> bool" where
  "installs h dep =
     (case subprocess_run h (pip_install h dep) 300 of
        CompletedProcess rc out err \<Rightarrow> rc = 0
      | RunRaises e \<Rightarrow> False)"

definition install_report :: "host \<Rightarrow> string \<Rightarrow> string \<Rightarrow> log_message" where
  "install_report h mn dep =
     (case subprocess_run h (pip_install h dep) 300 of
        CompletedProcess rc out err \<Rightarrow> FailedToInstall dep err
      | RunRaises e \<Rightarrow> ErrorInstallingDependencies mn e)"

definition install_dependencies :: "host \<Rightarrow> string list \<Rightarrow> string \<Rightarrow> world \<Rightarrow> bool \<times> world" where
  "install_dependencies h deps mn w =
     install_each h deps mn (logger_info (InstallingDependencies mn deps) w)"

text \<open>
  The dependency step of \<^verbatim>\<open>load_module\<close>: the installer runs when the executed module
  has an attribute \<^verbatim>\<open>DEPENDENCIES\<close> whose value is a non-empty list; the result is
  \<^verbatim>\<open>install_success\<close> (\<^verbatim>\<open>True\<close> when nothing had to be installed).
\<close>

definition provision :: "host \<Rightarrow> artifact \<Rightarrow> string \<Rightarrow> world \<Rightarrow> bool \<times> world" where
  "provision h a mn w =
     (case DEPENDENCIES a of
        None \<Rightarrow> (True, w)
      | Some deps \<Rightarrow> if deps \<noteq> [] then install_dependencies h deps mn w else (True, w))"

text \<open>
  The \<^verbatim>\<open>try\<close> block of \<^verbatim>\<open>ModuleLoader.load_module\<close>: \<open>Inr b\<close> when it executes
  \<^verbatim>\<open>return b\<close>, \<open>Inl r\<close> when \<open>r\<close> is raised inside it. In the order of the source:
  the file must exist, a loader must be found, the module is entered into
  \<^verbatim>\<open>sys.modules\<close> and executed, it must have \<^verbatim>\<open>register\<close>, its dependencies are
  installed, \<^verbatim>\<open>register\<close> is awaited, and a \<^verbatim>\<open>ModuleInfo\<close> result is tagged with
  \<^verbatim>\<open>is_system\<close>, stored in \<^verbatim>\<open>loaded_modules\<close> and then written to the Registry.
\<close>

definition load_module_try :: "host \<Rightarrow> string \<Rightarrow> string \<Rightarrow> bool \<Rightarrow> world \<Rightarrow> (raised + bool) \<times> world" where
  "load_module_try h fp mn sys w =
     (case files w fp of
        None \<Rightarrow> (Inr False, logger_error (ModuleFileNotFound fp) w)
      | Some a \<Rightarrow>
          if \<not> has_loader a then (Inr False, logger_error (CannotLoadSpec mn) w)
          else
            (case exec_module a of
               Some r \<Rightarrow> (Inl r, w\<lparr>sys_modules := (sys_modules w)(mn \<mapsto> ArtifactModule a)\<rparr>)
             | None \<Rightarrow>
                 if \<not> has_register a
                 then (Inr False, logger_error (NoRegisterFunction mn)
                                    (w\<lparr>sys_modules := (sys_modules w)(mn \<mapsto> ArtifactModule a)\<rparr>))
                 else
                   (case provision h a mn (w\<lparr>sys_modules := (sys_modules w)(mn \<mapsto> ArtifactModule a)\<rparr>) of
                      (False, w2) \<Rightarrow> (Inr False, w2)
                    | (True, w2) \<Rightarrow>
                        (case register a of
                           Inl r \<Rightarrow> (Inl r, w2)
                         | Inr NotModuleInfo \<Rightarrow> (Inr False, logger_error (InvalidModuleInfo mn) w2)
                         | Inr (IsModuleInfo module_info) \<Rightarrow>
                             (case add_module mn fp sys
                                     (w2\<lparr>loaded_modules :=
                                           (loaded_modules w2)(mn \<mapsto> module_info\<lparr>info_is_system := sys\<rparr>)\<rparr>) of
                                (Inl e, w4) \<Rightarrow> (Inl (ExceptionInstance e None), w4)
                              | (Inr module_record, w4) \<Rightarrow>
                                  (Inr True, logger_info (ModuleLoadedSuccessfully mn) w4))))))"

text \<open>
  The statement \<^verbatim>\<open>from core.database import ErrorLog\<close> in the handler of
  \<^verbatim>\<open>load_module\<close> takes the module from \<^verbatim>\<open>sys.modules["core.database"]\<close>. The
  \<^verbatim>\<open>try\<close> block assigns \<^verbatim>\<open>sys.modules[module_name]\<close>, so for an artifact named
  \<^verbatim>\<open>core.database\<close> that entry is the artifact's module object; then the import
  and the call are the artifact's. Otherwise (the host's module, or no entry and the
  module imported from the host's file) it is \<^verbatim>\<open>ErrorLog\<close> of \<^verbatim>\<open>core/database.py\<close>.
\<close>

definition ErrorLog_shadow :: "world \<Rightarrow> artifact option" where
  "ErrorLog_shadow w =
     (case sys_modules w ''core.database'' of
        Some (ArtifactModule a) \<Rightarrow> Some a
      | Some HostModule \<Rightarrow> None
      | None \<Rightarrow> None)"

definition ImportError :: raised where
  "ImportError =
     ExceptionInstance (PyException ''ImportError'' ''cannot import name ErrorLog'' []) None"

text \<open>
  \<^verbatim>\<open>ModuleLoader.load_module\<close>: the \<^verbatim>\<open>try\<close> block under its
  \<^verbatim>\<open>except Exception as e\<close>. The handler formats \<open>e\<close> into the log line, imports
  \<^verbatim>\<open>ErrorLog\<close>, calls \<^verbatim>\<open>ErrorLog.log_error\<close> and returns \<^verbatim>\<open>False\<close>; what
  \<^verbatim>\<open>__str__\<close> or the import raises leaves \<^verbatim>\<open>load_module\<close>, as does an exception
  that is not an instance of \<^verbatim>\<open>Exception\<close>.
\<close>

definition load_module :: "host \<Rightarrow> string \<Rightarrow> string \<Rightarrow> bool \<Rightarrow> world \<Rightarrow> bool outcome \<times> world" where
  "load_module h fp mn sys w =
     (case load_module_try h fp mn sys w of
        (Inr b, w1) \<Rightarrow> (Returns b, w1)
      | (Inl (BaseExceptionInstance e), w1) \<Rightarrow> (Propagates (BaseExceptionInstance e), w1)
      | (Inl (ExceptionInstance e (Some r)), w1) \<Rightarrow> (Propagates r, w1)
      | (Inl (ExceptionInstance e None), w1) \<Rightarrow>
          (let w2 = logger_error (ErrorLoadingModule mn e) w1 in
           case ErrorLog_shadow w2 of
             None \<Rightarrow>
               (Returns False,
                log_error (exc_type e) (exc_message e) (Some mn) (Some (exc_traceback e)) w2)
           | Some a \<Rightarrow>
               (case ErrorLog_attr a of
                  None \<Rightarrow> (Propagates ImportError, w2)
                | Some None \<Rightarrow> (Returns False, w2)
                | Some (Some r) \<Rightarrow> (Propagates r, w2))))"

text \<open>
  \<^verbatim>\<open>ModuleLoader.reload_module\<close>: \<^verbatim>\<open>False\<close> without a Registry row; otherwise
  \<^verbatim>\<open>unload_module\<close> (result ignored), then \<^verbatim>\<open>load_module\<close> with the row's
  \<^verbatim>\<open>file_path\<close> and \<^verbatim>\<open>is_system\<close>. What leaves \<^verbatim>\<open>load_module\<close> meets the
  \<^verbatim>\<open>except Exception as e\<close> of \<^verbatim>\<open>reload_module\<close>, which formats \<open>e\<close> into the log
  line and returns \<^verbatim>\<open>False\<close>.
\<close>

definition reload_module :: "host \<Rightarrow> string \<Rightarrow> world \<Rightarrow> bool outcome \<times> world" where
  "reload_module h mn w =
     (case get_module mn w of
        (None, w1) \<Rightarrow> (Returns False, w1)
      | (Some module_record, w1) \<Rightarrow>
          (case load_module h (file_path module_record) mn (is_system module_record)
                  (snd (unload_module mn w1)) of
             (Returns b, w2) \<Rightarrow> (Returns b, w2)
           | (Propagates (BaseExceptionInstance e), w2) \<Rightarrow>
               (Propagates (BaseExceptionInstance e), w2)
           | (Propagates (ExceptionInstance e (Some r)), w2) \<Rightarrow> (Propagates r, w2)
           | (Propagates (ExceptionInstance e None), w2) \<Rightarrow>
               (Returns False, logger_error (ErrorReloadingModule mn e) w2)))"

text \<open>
  The descriptor with which the \<^verbatim>\<open>try\<close> block of \<^verbatim>\<open>load_module\<close> gets to the
  assignment \<^verbatim>\<open>self.loaded_modules[module_name] = module_info\<close>, if it gets there:
  the file exists, a loader is found, the module executes, it has \<^verbatim>\<open>register\<close>, its
  \<^verbatim>\<open>DEPENDENCIES\<close> install, and \<^verbatim>\<open>register\<close> returns a \<^verbatim>\<open>ModuleInfo\<close>.
\<close>

definition registered_info :: "host \<Rightarrow> string \<Rightarrow> world \<Rightarrow> ModuleInfo option" where
  "registered_info h fp w =
     (case files w fp of
        None \<Rightarrow> None
      | Some a \<Rightarrow>
          if has_loader a \<and> exec_module a = None \<and> has_register a \<and>
             (case DEPENDENCIES a of None \<Rightarrow> True | Some deps \<Rightarrow> list_all (installs h) deps)
          then (case register a of
                  Inr (IsModuleInfo module_info) \<Rightarrow> Some module_info
                | Inr NotModuleInfo \<Rightarrow> None
                | Inl r \<Rightarrow> None)
          else None)"

text \<open>
  What the storage does to the next database operation, and to
  \<^verbatim>\<open>ModuleRecord.add_module\<close> for a name: \<^verbatim>\<open>get_or_create\<close> is one operation, and
  \<^verbatim>\<open>save\<close> a second one when the row existed.
\<close>

definition next_fault :: "world \<Rightarrow> exception option" where
  "next_fault w = (case db_faults w of [] \<Rightarrow> None | f # fs \<Rightarrow> f)"

definition registry_write_fault :: "string \<Rightarrow> world \<Rightarrow> exception option" where
  "registry_write_fault nm w =
     (case db_faults w of
        [] \<Rightarrow> None
      | f # fs \<Rightarrow>
          (case f of
             Some e \<Rightarrow> Some e
           | None \<Rightarrow> if nm \<in> dom (modules_table w)
                     then (case fs of [] \<Rightarrow> None | g # gs \<Rightarrow> g)
                     else None))"

section \<open>The handlers (\<^verbatim>\<open>modules/system/manager.py\<close>)\<close>

text \<open>
  An incoming message, by what the handlers read: the sender, the value of
  \<^verbatim>\<open>message.text.split(maxsplit=1)\<close>, and the document of the message replied to.
  A handler's result is the text it answers with, as the localization key and its
  arguments.
\<close>

record document =
  file_name :: string
  file_id :: string

record message =
  from_user_id :: int
  args :: "string list"
  reply_document :: "document option"

datatype reply =
    NotAdmin
  | ReplyToFile
  | InvalidFile
  | ModuleConflict string string
  | ModuleLoaded string
  | ModuleUpdated string
  | ModuleRegistrationError string
  | ModuleError string string
  | ProvideModuleName
  | ModuleNotFound string
  | ModulePredefined string
  | ModuleDeleted string
  | Canceled

definition is_admin :: "host \<Rightarrow> int \<Rightarrow> world \<Rightarrow> bool \<times> world" where
  "is_admin h user_id w =
     (if user_id = admin_id h then (True, w) else Admin_is_admin user_id w)"

text \<open>\<^verbatim>\<open>str.endswith\<close> and the slice \<^verbatim>\<open>s[:-3]\<close>.\<close>

definition endswith :: "string \<Rightarrow> string \<Rightarrow> bool" where
  "endswith s suffix =
     (length suffix \<le> length s \<and> drop (length s - length suffix) s = suffix)"

definition strip_last3 :: "string \<Rightarrow> string" where
  "strip_last3 s = take (length s - 3) s"

text \<open>
  \<^verbatim>\<open>_load_module_from_file\<close>: downloads the document to
  \<^verbatim>\<open>modules/user/<name>.py\<close>, unloads first when overwriting, loads as a user module.
  Its \<^verbatim>\<open>except Exception as e\<close> formats \<open>e\<close> into the log line and the answer.
\<close>

definition load_module_from_file :: "host \<Rightarrow> document \<Rightarrow> string \<Rightarrow> bool \<Rightarrow> world \<Rightarrow> reply outcome \<times> world" where
  "load_module_from_file h doc mn overwrite w =
     (let fp = ''modules/user/'' @ mn @ ''.py'' in
      case download_file h (file_id doc) of
        Inl e \<Rightarrow> (Returns (ModuleError mn (exc_message e)),
                  logger_error (ErrorLoadingModuleFromFile e) w)
      | Inr a \<Rightarrow>
          (let w1 = w\<lparr>files := (files w)(fp \<mapsto> a)\<rparr>;
               w2 = (if overwrite then snd (unload_module mn w1) else w1)
           in case load_module h fp mn False w2 of
                (Propagates (BaseExceptionInstance e), w3) \<Rightarrow>
                  (Propagates (BaseExceptionInstance e), w3)
              | (Propagates (ExceptionInstance e (Some r)), w3) \<Rightarrow> (Propagates r, w3)
              | (Propagates (ExceptionInstance e None), w3) \<Rightarrow>
                  (Returns (ModuleError mn (exc_message e)),
                   logger_error (ErrorLoadingModuleFromFile e) w3)
              | (Returns success, w3) \<Rightarrow>
                  (Returns (if success
                            then (if overwrite then ModuleUpdated mn else ModuleLoaded mn)
                            else ModuleRegistrationError mn), w3)))"

text \<open>
  \<^verbatim>\<open>load_module_handler\<close>: on a name already in the Catalog it answers with the
  conflict question (buttons \<^verbatim>\<open>overwrite_lm_<name>\<close> and \<^verbatim>\<open>cancel_load\<close>) and returns.
\<close>

definition load_module_handler :: "host \<Rightarrow> message \<Rightarrow> world \<Rightarrow> reply outcome \<times> world" where
  "load_module_handler h m w =
     (case is_admin h (from_user_id m) w of
        (False, w1) \<Rightarrow> (Returns NotAdmin, w1)
      | (True, w1) \<Rightarrow>
          (case reply_document m of
             None \<Rightarrow> (Returns ReplyToFile, w1)
           | Some doc \<Rightarrow>
               if \<not> endswith (file_name doc) ''.py'' then (Returns InvalidFile, w1)
               else
                 (let mn = strip_last3 (file_name doc) in
                  if mn \<in> dom (loaded_modules w1)
                  then (Returns (ModuleConflict mn (''overwrite_lm_'' @ mn)), w1)
                  else
                    (case load_module_from_file h doc mn False w1 of
                       (Returns answer, w2) \<Rightarrow> (Returns answer, w2)
                     | (Propagates (BaseExceptionInstance e), w2) \<Rightarrow>
                         (Propagates (BaseExceptionInstance e), w2)
                     | (Propagates (ExceptionInstance e (Some r)), w2) \<Rightarrow> (Propagates r, w2)
                     | (Propagates (ExceptionInstance e None), w2) \<Rightarrow>
                         (Returns (ModuleError ''unknown'' (exc_message e)),
                          logger_error (ErrorInLoadModuleHandler e) w2)))))"

text \<open>\<^verbatim>\<open>cancel_load_callback\<close>: edits the question into the cancellation text.\<close>

definition cancel_load_callback :: "world \<Rightarrow> reply \<times> world" where
  "cancel_load_callback w = (Canceled, w)"


section \<open>Sample states\<close>

text \<open>
  The state of a fresh installation: nothing loaded, empty tables, no files, a storage
  that does not fault. The concrete instances below are built from it.
\<close>

definition fresh_world :: world where
  "fresh_world = \<lparr>loaded_modules = Map.empty, sys_modules = [''core.database'' \<mapsto> HostModule],
     modules_table = Map.empty,
     error_logs = [], admins = {}, files = Map.empty, subprocess_calls = [], log = [],
     clock = 0, db_faults = []\<rparr>"

text \<open>A system row for the module \<^verbatim>\<open>manager\<close>, as the start-up scan registers it.\<close>

definition manager_row :: ModuleRecord where
  "manager_row = \<lparr>name = ''manager'', file_path = ''modules/system/manager.py'',
     is_system = True, is_active = True, added_at = 0, updated_at = 0\<rparr>"

text \<open>
  A host whose installer answers by the specifier alone, a module \<^verbatim>\<open>hello\<close> that loads
  without dependencies, and two exceptions: a storage fault and the \<^verbatim>\<open>SystemExit\<close>
  that \<^verbatim>\<open>sys.exit(1)\<close> raises.
\<close>

definition sample_host :: "(string \<Rightarrow> run_outcome) \<Rightarrow> (string \<Rightarrow> exception + artifact) \<Rightarrow> host" where
  "sample_host pip dl =
     \<lparr>sys_executable = ''python3'', subprocess_run = (\<lambda>argv timeout. pip (last argv)),
      admin_id = 1, download_file = dl\<rparr>"

definition hello_info :: ModuleInfo where
  "hello_info = \<lparr>info_name = ''hello'', description = ''greets'',
     commands = [(''hello'', ''say hello'')], info_is_system = False, dependencies = []\<rparr>"

definition hello_module :: artifact where
  "hello_module = \<lparr>has_loader = True, exec_module = None, has_register = True,
     DEPENDENCIES = None, register = Inr (IsModuleInfo hello_info), ErrorLog_attr = None\<rparr>"

definition disk_full :: exception where
  "disk_full = PyException ''OperationalError'' ''database or disk is full'' ''Traceback''"

definition system_exit :: exception where
  "system_exit = PyException ''SystemExit'' ''1'' ''Traceback''"

definition no_download :: "string \<Rightarrow> exception + artifact" where
  "no_download fid = Inl (PyException ''TelegramBadRequest'' ''wrong file_id'' ''Traceback'')"

definition plain_host :: host where
  "plain_host = sample_host (\<lambda>dep. CompletedProcess 0 ''ok'' []) no_download"

definition hello_path :: string where
  "hello_path = ''modules/user/hello.py''"

definition world_with_hello :: world where
  "world_with_hello = fresh_world\<lparr>files := [hello_path \<mapsto> hello_module]\<rparr>"

definition raising_module :: "raised \<Rightarrow> artifact" where
  "raising_module r = hello_module\<lparr>exec_module := Some r\<rparr>"

definition register_raising_module :: "raised \<Rightarrow> artifact" where
  "register_raising_module r = hello_module\<lparr>register := Inl r\<rparr>"

definition failing_pip :: "string \<Rightarrow> run_outcome" where
  "failing_pip dep =
     (if dep = ''requests'' then CompletedProcess 0 ''ok'' []
      else if dep = ''slowpkg''
      then RunRaises (PyException ''TimeoutExpired'' 
                       ''Command [python3, -m, pip, install, slowpkg] timed out after 300 seconds''
                       ''Traceback'')
      else CompletedProcess 1 [] ''ERROR: No matching distribution found'')"

definition pip_host :: host where
  "pip_host = sample_host failing_pip no_download"

definition hello_row :: ModuleRecord where
  "hello_row = \<lparr>name = ''hello'', file_path = hello_path, is_system = False, is_active = True,
     added_at = 0, updated_at = 0\<rparr>"

definition world_running_hello :: world where
  "world_running_hello =
     fresh_world\<lparr>loaded_modules := [''hello'' \<mapsto> hello_info\<lparr>description := ''old version''\<rparr>],
                  sys_modules := [''core.database'' \<mapsto> HostModule,
                                  ''hello'' \<mapsto> ArtifactModule hello_module],
                  modules_table := [''hello'' \<mapsto> hello_row],
                  files := [hello_path \<mapsto> hello_module]\<rparr>"

definition value_error :: exception where
  "value_error = PyException ''ValueError'' ''bad value'' ''Traceback''"

definition unprintable :: raised where
  "unprintable =
     ExceptionInstance (PyException ''ModuleFault'' [] ''Traceback'')
       (Some (ExceptionInstance
                (PyException ''TypeError'' ''__str__ returned non-string'' ''Traceback'') None))"

definition database_path :: string where
  "database_path = ''modules/user/core.database.py''"

definition no_interpreter :: exception where
  "no_interpreter =
     PyException ''FileNotFoundError'' ''[Errno 2] No such file or directory: python3''
       ''Traceback''"

definition broken_host :: host where
  "broken_host = sample_host (\<lambda>dep. RunRaises no_interpreter) no_download"

definition declaring_info :: ModuleInfo where
  "declaring_info = hello_info\<lparr>dependencies := [''requests'']\<rparr>"

definition hello_upload :: message where
  "hello_upload = \<lparr>from_user_id = 1, args = [''/lm''],
     reply_document = Some \<lparr>file_name = ''hello.py'', file_id = ''file-1''\<rparr>\<rparr>"



section \<open>What each operation leaves alone\<close>

lemma db_call_frame:
  "db_call w = (f, w1) \<Longrightarrow>
     loaded_modules w1 = loaded_modules w \<and> modules_table w1 = modules_table w \<and>
     files w1 = files w \<and> error_logs w1 = error_logs w \<and> clock w1 = clock w \<and> sys_modules w1 = sys_modules w
     \<and> admins w1 = admins w \<and> subprocess_calls w1 = subprocess_calls w \<and> log w1 = log w"
  by (cases "db_faults w") (auto simp: db_call_def)

lemma logger_error_frame [simp]:
  "loaded_modules (logger_error m w) = loaded_modules w"
  "modules_table (logger_error m w) = modules_table w"
  "files (logger_error m w) = files w"
  "error_logs (logger_error m w) = error_logs w"
  "clock (logger_error m w) = clock w"
  "sys_modules (logger_error m w) = sys_modules w"
  "subprocess_calls (logger_error m w) = subprocess_calls w"
  "db_faults (logger_error m w) = db_faults w"
  "log (logger_error m w) = log w @ [(ERROR, m)]"
  by (simp_all add: logger_error_def)

lemma logger_info_frame [simp]:
  "loaded_modules (logger_info m w) = loaded_modules w"
  "modules_table (logger_info m w) = modules_table w"
  "files (logger_info m w) = files w"
  "error_logs (logger_info m w) = error_logs w"
  "clock (logger_info m w) = clock w"
  "sys_modules (logger_info m w) = sys_modules w"
  "subprocess_calls (logger_info m w) = subprocess_calls w"
  "db_faults (logger_info m w) = db_faults w"
  "log (logger_info m w) = log w @ [(INFO, m)]"
  by (simp_all add: logger_info_def)

lemma add_module_result:
  assumes "add_module nm fp sys w = (res, w')"
  shows "loaded_modules w' = loaded_modules w \<and> files w' = files w \<and>
         error_logs w' = error_logs w \<and> sys_modules w' = sys_modules w \<and>
         subprocess_calls w' = subprocess_calls w \<and> clock w' = clock w \<and>
         ((\<exists>e. res = Inl e \<and> modules_table w' = modules_table w) \<or>
          (\<exists>r. res = Inr r \<and> modules_table w' = (modules_table w)(nm \<mapsto> r) \<and>
               r = (case modules_table w nm of
                      None \<Rightarrow> \<lparr>name = nm, file_path = fp, is_system = sys, is_active = True,
                                added_at = clock w, updated_at = clock w\<rparr>
                    | Some m \<Rightarrow> m\<lparr>file_path := fp, is_active := True, updated_at := clock w\<rparr>)))"
proof -
  obtain f w1 where c1: "db_call w = (f, w1)" by (cases "db_call w")
  note fr1 = db_call_frame [OF c1]
  show ?thesis
  proof (cases f)
    case (Some e)
    with assms c1 fr1 show ?thesis by (auto simp: add_module_def)
  next
    case None
    note f_none = this
    show ?thesis
    proof (cases "modules_table w1 nm")
      case None
      with assms c1 fr1 f_none show ?thesis by (auto simp: add_module_def Let_def)
    next
      case (Some m)
      obtain g w2 where c2: "db_call w1 = (g, w2)" by (cases "db_call w1")
      note fr2 = db_call_frame [OF c2]
      show ?thesis
      proof (cases g)
        case None
        with assms c1 c2 fr1 fr2 f_none Some show ?thesis by (auto simp: add_module_def Let_def)
      next
        case (Some e)
        with assms c1 c2 fr1 fr2 f_none \<open>modules_table w1 nm = Some m\<close> show ?thesis
          by (auto simp: add_module_def)
      qed
    qed
  qed
qed

lemma get_module_result:
  assumes "get_module nm w = (res, w')"
  shows "loaded_modules w' = loaded_modules w \<and> files w' = files w \<and>
         error_logs w' = error_logs w \<and> sys_modules w' = sys_modules w \<and>
         subprocess_calls w' = subprocess_calls w \<and> modules_table w' = modules_table w \<and>
         clock w' = clock w \<and> (res = None \<or> res = modules_table w nm)"
proof -
  obtain f w1 where c1: "db_call w = (f, w1)" by (cases "db_call w")
  note fr1 = db_call_frame [OF c1]
  show ?thesis using assms c1 fr1 by (cases f) (auto simp: get_module_def)
qed

lemma delete_module_result:
  assumes "delete_module nm w = (res, w')"
  shows "loaded_modules w' = loaded_modules w \<and> files w' = files w \<and>
         error_logs w' = error_logs w \<and> sys_modules w' = sys_modules w \<and>
         subprocess_calls w' = subprocess_calls w \<and>
         (if res then (\<exists>m. modules_table w nm = Some m \<and> \<not> is_system m) \<and>
                      modules_table w' = (modules_table w)(nm := None)
          else modules_table w' = modules_table w)"
proof -
  obtain r w1 where g: "get_module nm w = (r, w1)" by (cases "get_module nm w")
  note gr = get_module_result [OF g]
  obtain f w2 where c: "db_call w1 = (f, w2)" by (cases "db_call w1")
  note fr = db_call_frame [OF c]
  show ?thesis
  proof (cases r)
    case None
    with assms g gr show ?thesis by (auto simp: delete_module_def)
  next
    case (Some m)
    with gr have tm: "modules_table w nm = Some m" by auto
    with Some assms g gr c fr show ?thesis
      by (cases f; cases "is_system m") (auto simp: delete_module_def)
  qed
qed

section \<open>Unloading\<close>

text \<open>
  Claim C9. For a name with no Catalog entry, \<^verbatim>\<open>unload_module\<close> returns \<^verbatim>\<open>False\<close> and
  changes nothing at all (the model has no exceptional outcome for it: the function
  returns). It never touches the Registry or the files, whatever the name; and called
  a second time right after a first call it returns \<^verbatim>\<open>False\<close> and leaves the state
  of the first call as it is.
\<close>

theorem unload_module_absent:
  "(nm \<notin> dom (loaded_modules w) \<longrightarrow> unload_module nm w = (False, w)) \<and>
   modules_table (snd (unload_module nm w)) = modules_table w \<and>
   files (snd (unload_module nm w)) = files w \<and>
   unload_module nm (snd (unload_module nm w)) = (False, snd (unload_module nm w))"
  by (simp add: unload_module_def logger_info_def)

theorem unload_module_absent_witness:
  "''foo'' \<notin> dom (loaded_modules fresh_world) \<and>
   unload_module ''foo'' fresh_world = (False, fresh_world)"
  using unload_module_absent [of "''foo''" fresh_world]
  by (simp add: fresh_world_def)

section \<open>The origin class of a Registry row\<close>

text \<open>
  Claim C10. \<^verbatim>\<open>add_module\<close> on a name that has a row keeps the row's \<^verbatim>\<open>is_system\<close>,
  \<^verbatim>\<open>name\<close> and \<^verbatim>\<open>added_at\<close> whatever \<^verbatim>\<open>is_system\<close> argument it is given: the row
  after the call is the old row (the storage faulted) or the old row with
  \<^verbatim>\<open>file_path\<close>, \<^verbatim>\<open>is_active\<close> and \<^verbatim>\<open>updated_at\<close> set. A system row therefore
  still makes \<^verbatim>\<open>delete_module\<close> return \<^verbatim>\<open>False\<close> and stay in the table after its
  name was written again, also with \<^verbatim>\<open>is_system = False\<close>.
\<close>

theorem add_module_keeps_is_system:
  assumes "modules_table w nm = Some r"
  shows "\<exists>r'. modules_table (snd (add_module nm fp sys w)) nm = Some r' \<and>
           is_system r' = is_system r \<and> name r' = name r \<and> added_at r' = added_at r \<and>
           (r' = r \<or> r' = r\<lparr>file_path := fp, is_active := True, updated_at := clock w\<rparr>) \<and>
           (is_system r \<longrightarrow>
              fst (delete_module nm (snd (add_module nm fp sys w))) = False \<and>
              modules_table (snd (delete_module nm (snd (add_module nm fp sys w)))) nm = Some r')"
proof -
  obtain res w' where a: "add_module nm fp sys w = (res, w')" by (cases "add_module nm fp sys w")
  obtain b w'' where d: "delete_module nm w' = (b, w'')" by (cases "delete_module nm w'")
  note ar = add_module_result [OF a]
  note dr = delete_module_result [OF d]
  from ar assms obtain r' where r': "modules_table w' nm = Some r'"
    "r' = r \<or> r' = r\<lparr>file_path := fp, is_active := True, updated_at := clock w\<rparr>"
    by auto
  then have keep: "is_system r' = is_system r" "name r' = name r" "added_at r' = added_at r"
    by auto
  have "is_system r \<Longrightarrow> \<not> b \<and> modules_table w'' nm = Some r'"
    using dr r' keep by (cases b) auto
  with r' keep a d show ?thesis by auto
qed

theorem add_module_keeps_is_system_witness:
  "modules_table (fresh_world\<lparr>modules_table := [''manager'' \<mapsto> manager_row]\<rparr>) ''manager''
     = Some manager_row \<and> is_system manager_row \<and>
   fst (delete_module ''manager''
          (snd (add_module ''manager'' ''modules/user/manager.py'' False
                  (fresh_world\<lparr>modules_table := [''manager'' \<mapsto> manager_row]\<rparr>)))) = False"
  using add_module_keeps_is_system
          [of "fresh_world\<lparr>modules_table := [''manager'' \<mapsto> manager_row]\<rparr>"
              "''manager''" manager_row "''modules/user/manager.py''" False]
  by (auto simp: manager_row_def)

section \<open>The installer loop, the try block and the Error Sink\<close>

lemma install_each_frame:
  "install_each h deps mn w = (b, w') \<Longrightarrow>
     loaded_modules w' = loaded_modules w \<and> modules_table w' = modules_table w \<and>
     files w' = files w \<and> error_logs w' = error_logs w \<and> sys_modules w' = sys_modules w \<and>
     db_faults w' = db_faults w \<and> clock w' = clock w"
proof (induction deps arbitrary: w)
  case Nil
  then show ?case by auto
next
  case (Cons d ds)
  show ?case
  proof (cases "subprocess_run h (pip_install h d) 300")
    case (RunRaises e)
    with Cons.prems show ?thesis by (auto simp: Let_def)
  next
    case (CompletedProcess rc out err)
    show ?thesis
    proof (cases "rc = 0")
      case True
      with CompletedProcess Cons.prems
      have "install_each h ds mn (w\<lparr>subprocess_calls := subprocess_calls w @ [(pip_install h d, 300)]\<rparr>) = (b, w')"
        by (simp add: Let_def)
      from Cons.IH [OF this] show ?thesis by simp
    next
      case False
      with CompletedProcess Cons.prems show ?thesis by (auto simp: Let_def)
    qed
  qed
qed

lemma install_each_result: "fst (install_each h deps mn w) = list_all (installs h) deps"
  by (induction deps arbitrary: w) (auto simp: Let_def installs_def split: run_outcome.splits)

lemma install_each_calls:
  "subprocess_calls (snd (install_each h deps mn w)) =
     subprocess_calls w @
     map (\<lambda>d. (pip_install h d, 300))
       (takeWhile (installs h) deps @ take 1 (dropWhile (installs h) deps))"
  by (induction deps arbitrary: w) (auto simp: Let_def installs_def split: run_outcome.splits)

lemma install_each_log:
  "log (snd (install_each h deps mn w)) =
     log w @ [case dropWhile (installs h) deps of
                [] \<Rightarrow> (INFO, DependenciesInstalled mn)
              | d # ds \<Rightarrow> (ERROR, install_report h mn d)]"
  by (induction deps arbitrary: w)
     (auto simp: Let_def installs_def install_report_def split: run_outcome.splits)


lemma db_call_faults:
  "db_call w = (f, w1) \<Longrightarrow>
     (db_faults w = [] \<and> f = None \<and> w1 = w) \<or> db_faults w = f # db_faults w1"
  by (cases "db_faults w") (auto simp: db_call_def)

lemma install_dependencies_frame:
  assumes "install_dependencies h deps mn w = (b, w')"
  shows "loaded_modules w' = loaded_modules w \<and> modules_table w' = modules_table w \<and>
     files w' = files w \<and> error_logs w' = error_logs w \<and> sys_modules w' = sys_modules w \<and>
     db_faults w' = db_faults w \<and> clock w' = clock w"
  using install_each_frame [OF assms [unfolded install_dependencies_def]] by simp

lemma provision_frame:
  assumes "provision h a mn w = (b, w')"
  shows "loaded_modules w' = loaded_modules w \<and> modules_table w' = modules_table w \<and>
     files w' = files w \<and> error_logs w' = error_logs w \<and> sys_modules w' = sys_modules w \<and>
     db_faults w' = db_faults w \<and> clock w' = clock w"
proof (cases "DEPENDENCIES a")
  case None
  with assms show ?thesis by (simp add: provision_def)
next
  case (Some deps)
  show ?thesis
  proof (cases "deps = []")
    case True
    with Some assms show ?thesis by (simp add: provision_def)
  next
    case False
    with Some assms have "install_dependencies h deps mn w = (b, w')" by (simp add: provision_def)
    from install_dependencies_frame [OF this] show ?thesis .
  qed
qed

lemma provision_result:
  "fst (provision h a mn w) =
     (case DEPENDENCIES a of None \<Rightarrow> True | Some deps \<Rightarrow> list_all (installs h) deps)"
  by (cases "DEPENDENCIES a")
     (auto simp: provision_def install_dependencies_def install_each_result)

lemma next_fault_db_call:
  "fst (db_call w) = next_fault w"
  "db_faults (snd (db_call w)) = tl (db_faults w)"
  by (cases "db_faults w"; simp add: db_call_def next_fault_def)+

lemma registry_write_fault_cong:
  "db_faults w' = db_faults w \<Longrightarrow> modules_table w' = modules_table w \<Longrightarrow>
     registry_write_fault nm w' = registry_write_fault nm w"
  by (auto simp: registry_write_fault_def split: list.splits option.splits)

lemma add_module_fault:
  "fst (add_module nm fp sys w) =
     (case registry_write_fault nm w of
        Some e \<Rightarrow> Inl e
      | None \<Rightarrow> Inr (case modules_table w nm of
                      None \<Rightarrow> \<lparr>name = nm, file_path = fp, is_system = sys, is_active = True,
                                added_at = clock w, updated_at = clock w\<rparr>
                    | Some m \<Rightarrow> m\<lparr>file_path := fp, is_active := True, updated_at := clock w\<rparr>))"
proof (cases "db_faults w")
  case Nil
  then show ?thesis
    by (cases "modules_table w nm")
       (simp_all add: add_module_def db_call_def registry_write_fault_def next_fault_def Let_def)
next
  case (Cons f fs)
  note c = this
  show ?thesis
  proof (cases f)
    case (Some e)
    with c show ?thesis
      by (simp add: add_module_def db_call_def registry_write_fault_def next_fault_def)
  next
    case None
    note f = this
    show ?thesis
    proof (cases "modules_table w nm")
      case None
      with c f show ?thesis
        by (simp add: add_module_def db_call_def registry_write_fault_def next_fault_def Let_def
                      domIff)
    next
      case (Some m)
      with c f show ?thesis
        by (cases fs; cases "hd fs")
           (simp_all add: add_module_def db_call_def registry_write_fault_def next_fault_def
                          Let_def domIff split: option.splits)
    qed
  qed
qed

lemma load_module_try_state:
  assumes "load_module_try h fp mn sys w = (res, w1)"
  shows "files w1 = files w \<and> error_logs w1 = error_logs w \<and> clock w1 = clock w \<and>
         loaded_modules w1 =
           (case registered_info h fp w of
              None \<Rightarrow> loaded_modules w
            | Some mi \<Rightarrow> (loaded_modules w)(mn \<mapsto> mi\<lparr>info_is_system := sys\<rparr>)) \<and>
         sys_modules w1 =
           (case files w fp of
              None \<Rightarrow> sys_modules w
            | Some a \<Rightarrow> if has_loader a then (sys_modules w)(mn \<mapsto> ArtifactModule a)
                        else sys_modules w) \<and>
         (\<forall>r. res = Inl r \<longrightarrow> (\<exists>a. files w fp = Some a \<and> has_loader a)) \<and>
         (case registered_info h fp w of
            None \<Rightarrow> res \<noteq> Inr True \<and> modules_table w1 = modules_table w \<and>
                    db_faults w1 = db_faults w
          | Some mi \<Rightarrow>
              (case registry_write_fault mn w of
                 Some e \<Rightarrow> res = Inl (ExceptionInstance e None) \<and>
                           modules_table w1 = modules_table w
               | None \<Rightarrow> res = Inr True \<and>
                   modules_table w1 = (modules_table w)(mn \<mapsto>
                     (case modules_table w mn of
                        None \<Rightarrow> \<lparr>name = mn, file_path = fp, is_system = sys, is_active = True,
                                  added_at = clock w, updated_at = clock w\<rparr>
                      | Some m \<Rightarrow> m\<lparr>file_path := fp, is_active := True,
                                     updated_at := clock w\<rparr>))))"
proof (cases "files w fp")
  case None
  with assms show ?thesis by (auto simp: load_module_try_def registered_info_def)
next
  case (Some a)
  note fl = this
  let ?w0 = "w\<lparr>sys_modules := (sys_modules w)(mn \<mapsto> ArtifactModule a)\<rparr>"
  show ?thesis
  proof (cases "has_loader a \<and> exec_module a = None \<and> has_register a")
    case False
    with assms fl show ?thesis
      by (cases "exec_module a"; cases "has_loader a"; cases "has_register a")
         (auto simp: load_module_try_def registered_info_def)
  next
    case True
    obtain ok w2 where p: "provision h a mn ?w0 = (ok, w2)" by (cases "provision h a mn ?w0")
    note pf = provision_frame [OF p]
    from provision_result [of h a mn ?w0] p
    have okv: "ok = (case DEPENDENCIES a of None \<Rightarrow> True
                     | Some deps \<Rightarrow> list_all (installs h) deps)" by simp
    show ?thesis
    proof (cases ok)
      case False
      with okv have ri: "registered_info h fp w = None"
        using fl True by (simp add: registered_info_def)
      from False assms fl True p have "res = Inr False" "w1 = w2"
        by (auto simp: load_module_try_def)
      with pf ri fl True show ?thesis by auto
    next
      case ok: True
      with okv have dep: "(case DEPENDENCIES a of None \<Rightarrow> True
                     | Some deps \<Rightarrow> list_all (installs h) deps)" by simp
      show ?thesis
      proof (cases "register a")
        case (Inl r)
        with dep have ri: "registered_info h fp w = None"
          using fl True by (simp add: registered_info_def)
        from Inl ok assms fl True p have "res = Inl r" "w1 = w2"
          by (auto simp: load_module_try_def)
        with pf ri fl True show ?thesis by auto
      next
        case (Inr v)
        note rg = this
        show ?thesis
        proof (cases v)
          case NotModuleInfo
          with rg dep have ri: "registered_info h fp w = None"
            using fl True by (simp add: registered_info_def)
          from NotModuleInfo rg ok assms fl True p
          have "res = Inr False" "w1 = logger_error (InvalidModuleInfo mn) w2"
            by (auto simp: load_module_try_def)
          with pf ri fl True show ?thesis by auto
        next
          case (IsModuleInfo mi)
          with rg dep have ri: "registered_info h fp w = Some mi"
            using fl True by (simp add: registered_info_def)
          let ?w3 = "w2\<lparr>loaded_modules := (loaded_modules w2)(mn \<mapsto> mi\<lparr>info_is_system := sys\<rparr>)\<rparr>"
          obtain ra w4 where a: "add_module mn fp sys ?w3 = (ra, w4)"
            by (cases "add_module mn fp sys ?w3")
          note ar = add_module_result [OF a]
          have rw: "registry_write_fault mn ?w3 = registry_write_fault mn w"
            using pf by (intro registry_write_fault_cong) simp_all
          have tb: "modules_table ?w3 = modules_table w" "clock ?w3 = clock w"
            using pf by simp_all
          from add_module_fault [of mn fp sys ?w3] a rw tb
          have ra: "ra = (case registry_write_fault mn w of
                      Some e \<Rightarrow> Inl e
                    | None \<Rightarrow> Inr (case modules_table w mn of
                        None \<Rightarrow> \<lparr>name = mn, file_path = fp, is_system = sys, is_active = True,
                                  added_at = clock w, updated_at = clock w\<rparr>
                      | Some m \<Rightarrow> m\<lparr>file_path := fp, is_active := True,
                                     updated_at := clock w\<rparr>))"
            by (auto split: option.splits)
          show ?thesis
          proof (cases "registry_write_fault mn w")
            case (Some e)
            with ra have "ra = Inl e" by simp
            with IsModuleInfo rg ok assms fl True p a
            have "res = Inl (ExceptionInstance e None)" "w1 = w4"
              by (auto simp: load_module_try_def)
            with ar pf ri fl True Some \<open>ra = Inl e\<close> show ?thesis by auto
          next
            case None
            with ra obtain r where r: "ra = Inr r"
              "r = (case modules_table w mn of
                        None \<Rightarrow> \<lparr>name = mn, file_path = fp, is_system = sys, is_active = True,
                                  added_at = clock w, updated_at = clock w\<rparr>
                      | Some m \<Rightarrow> m\<lparr>file_path := fp, is_active := True,
                                     updated_at := clock w\<rparr>)" by simp
            with IsModuleInfo rg ok assms fl True p a
            have "res = Inr True" "w1 = logger_info (ModuleLoadedSuccessfully mn) w4"
              by (auto simp: load_module_try_def)
            with ar pf ri fl True None r tb show ?thesis by auto
          qed
        qed
      qed
    qed
  qed
qed

lemma log_error_state:
  "loaded_modules (log_error t m n tb w) = loaded_modules w"
  "modules_table (log_error t m n tb w) = modules_table w"
  "files (log_error t m n tb w) = files w"
  "sys_modules (log_error t m n tb w) = sys_modules w"
  "error_logs (log_error t m n tb w) =
     (case next_fault w of
        None \<Rightarrow> error_logs w @
                 [\<lparr>log_module_name = n, error_type = t, error_message = m, traceback = tb,
                   created_at = clock w\<rparr>]
      | Some f \<Rightarrow> error_logs w)"
  "log (log_error t m n tb w) =
     (case next_fault w of
        None \<Rightarrow> log w
      | Some f \<Rightarrow> log w @ [(ERROR, ErrorLoggingToDatabase f)])"
  by (cases "db_faults w"; cases "hd (db_faults w)";
      simp add: log_error_def db_call_def next_fault_def)+

lemma ErrorLog_shadow_try:
  assumes "load_module_try h fp mn sys w = (Inl r, w1)"
  shows "ErrorLog_shadow w1 = (if mn = ''core.database'' then files w fp else ErrorLog_shadow w)"
proof -
  from load_module_try_state [OF assms] obtain a where
    a: "files w fp = Some a" "has_loader a" by blast
  with load_module_try_state [OF assms]
  have "sys_modules w1 = (sys_modules w)(mn \<mapsto> ArtifactModule a)" by simp
  with a show ?thesis by (simp add: ErrorLog_shadow_def)
qed

lemma load_module_caught:
  assumes t: "load_module_try h fp mn sys w = (Inl (ExceptionInstance e None), w1)"
    and n: "mn \<noteq> ''core.database''" and s: "ErrorLog_shadow w = None"
  shows "load_module h fp mn sys w =
           (Returns False,
            log_error (exc_type e) (exc_message e) (Some mn) (Some (exc_traceback e))
              (logger_error (ErrorLoadingModule mn e) w1))"
proof -
  from ErrorLog_shadow_try [OF t] n s have "ErrorLog_shadow w1 = None" by simp
  then have "ErrorLog_shadow (logger_error (ErrorLoadingModule mn e) w1) = None"
    by (simp add: ErrorLog_shadow_def)
  with t show ?thesis by (simp add: load_module_def Let_def)
qed

lemma load_module_caught_effect:
  assumes t: "load_module_try h fp mn sys w = (Inl (ExceptionInstance e None), w1)"
    and n: "mn \<noteq> ''core.database''" and s: "ErrorLog_shadow w = None"
  shows "fst (load_module h fp mn sys w) = Returns False \<and>
         log (snd (load_module h fp mn sys w)) =
           log w1 @ [(ERROR, ErrorLoadingModule mn e)] @
           (case next_fault w1 of
              None \<Rightarrow> []
            | Some f \<Rightarrow> [(ERROR, ErrorLoggingToDatabase f)]) \<and>
         error_logs (snd (load_module h fp mn sys w)) =
           (case next_fault w1 of
              None \<Rightarrow> error_logs w @
                       [\<lparr>log_module_name = Some mn, error_type = exc_type e,
                         error_message = exc_message e, traceback = Some (exc_traceback e),
                         created_at = clock w\<rparr>]
            | Some f \<Rightarrow> error_logs w)"
proof -
  note st = load_module_try_state [OF t]
  have nf: "next_fault (logger_error (ErrorLoadingModule mn e) w1) = next_fault w1"
    by (simp add: next_fault_def)
  show ?thesis
    using st by (cases "next_fault w1") (simp_all add: load_module_caught [OF t n s] log_error_state nf)
qed

lemma load_module_state:
  assumes "load_module h fp mn sys w = (res, w')"
  shows "\<exists>r w1. load_module_try h fp mn sys w = (r, w1) \<and>
           loaded_modules w' = loaded_modules w1 \<and> modules_table w' = modules_table w1 \<and>
           files w' = files w1 \<and> sys_modules w' = sys_modules w1 \<and>
           (res = Returns True \<longleftrightarrow> r = Inr True)"
proof -
  obtain r w1 where t: "load_module_try h fp mn sys w = (r, w1)"
    by (cases "load_module_try h fp mn sys w")
  show ?thesis
  proof (cases r)
    case (Inr b)
    with t assms show ?thesis by (auto simp: load_module_def)
  next
    case (Inl x)
    show ?thesis
    proof (cases x)
      case (BaseExceptionInstance e)
      with Inl t assms show ?thesis by (auto simp: load_module_def)
    next
      case (ExceptionInstance e s)
      show ?thesis
      proof (cases s)
        case (Some r')
        with ExceptionInstance Inl t assms show ?thesis by (auto simp: load_module_def)
      next
        case None
        let ?w2 = "logger_error (ErrorLoadingModule mn e) w1"
        show ?thesis
        proof (cases "ErrorLog_shadow ?w2")
          case None
          with \<open>s = None\<close> ExceptionInstance Inl t assms show ?thesis
            by (auto simp: load_module_def Let_def log_error_state)
        next
          case (Some a)
          with \<open>s = None\<close> ExceptionInstance Inl t assms show ?thesis
            by (cases "ErrorLog_attr a"; cases "the (ErrorLog_attr a)")
               (auto simp: load_module_def Let_def)
        qed
      qed
    qed
  qed
qed

lemma load_module_effect:
  assumes l: "load_module h fp mn sys w = (res, w')"
  shows "files w' = files w \<and>
         loaded_modules w' =
           (case registered_info h fp w of
              None \<Rightarrow> loaded_modules w
            | Some mi \<Rightarrow> (loaded_modules w)(mn \<mapsto> mi\<lparr>info_is_system := sys\<rparr>)) \<and>
         (res = Returns True \<longleftrightarrow>
            registered_info h fp w \<noteq> None \<and> registry_write_fault mn w = None) \<and>
         (res \<noteq> Returns True \<longrightarrow> modules_table w' = modules_table w) \<and>
         (res = Returns True \<longrightarrow>
            modules_table w' = (modules_table w)(mn \<mapsto>
              (case modules_table w mn of
                 None \<Rightarrow> \<lparr>name = mn, file_path = fp, is_system = sys, is_active = True,
                           added_at = clock w, updated_at = clock w\<rparr>
               | Some m \<Rightarrow> m\<lparr>file_path := fp, is_active := True, updated_at := clock w\<rparr>))) \<and>
         (registered_info h fp w \<noteq> None \<and> registry_write_fault mn w \<noteq> None \<and>
          mn \<noteq> ''core.database'' \<and> ErrorLog_shadow w = None \<longrightarrow> res = Returns False)"
proof -
  from load_module_state [OF l] obtain r w1 where
    t: "load_module_try h fp mn sys w = (r, w1)" and
    fr: "loaded_modules w' = loaded_modules w1" "modules_table w' = modules_table w1"
        "files w' = files w1" and
    rt: "res = Returns True \<longleftrightarrow> r = Inr True" by blast
  note st = load_module_try_state [OF t]
  show ?thesis
  proof (cases "registered_info h fp w")
    case None
    with st fr rt show ?thesis by auto
  next
    case (Some mi)
    note ri = this
    show ?thesis
    proof (cases "registry_write_fault mn w")
      case None
      with ri st fr rt show ?thesis by auto
    next
      case (Some e)
      with ri st have r: "r = Inl (ExceptionInstance e None)" by simp
      have "mn \<noteq> ''core.database'' \<Longrightarrow> ErrorLog_shadow w = None \<Longrightarrow> res = Returns False"
        using load_module_caught [OF t [unfolded r]] l by simp
      with Some ri st fr rt r show ?thesis by auto
    qed
  qed
qed

lemmas eval_defs = load_module_def load_module_try_def provision_def add_module_def
  db_call_def log_error_def logger_error_def logger_info_def fresh_world_def
  hello_module_def hello_path_def world_with_hello_def plain_host_def sample_host_def
  disk_full_def system_exit_def hello_info_def ErrorLog_shadow_def Let_def

section \<open>A failed load and the state\<close>

text \<open>
  Claim C1, as amended. A load that does not return \<^verbatim>\<open>True\<close> (it returns \<^verbatim>\<open>False\<close> or
  an exception leaves it) leaves the Registry and the files as they were. The Catalog
  after a load is the Catalog before it, with the new descriptor entered under the name
  exactly when the \<^verbatim>\<open>try\<close> block got as far as the assignment
  \<^verbatim>\<open>self.loaded_modules[module_name] = module_info\<close>. A load fails exactly when it
  does not get that far, or when it does and the storage faults in the Registry write
  that follows (\<^verbatim>\<open>get_or_create\<close>, or \<^verbatim>\<open>save\<close> for a name that has a row). In the
  second case the assignment is not undone: the load fails, it returns \<^verbatim>\<open>False\<close> when
  the handler reaches the host's \<^verbatim>\<open>ErrorLog\<close>, and the Catalog holds the new entry.
\<close>

theorem load_module_failure_effect:
  assumes "load_module h fp mn sys w = (res, w')"
  shows "(res \<noteq> Returns True \<longrightarrow> modules_table w' = modules_table w \<and> files w' = files w) \<and>
         loaded_modules w' =
           (case registered_info h fp w of
              None \<Rightarrow> loaded_modules w
            | Some mi \<Rightarrow> (loaded_modules w)(mn \<mapsto> mi\<lparr>info_is_system := sys\<rparr>)) \<and>
         (res \<noteq> Returns True \<longleftrightarrow>
            registered_info h fp w = None \<or> registry_write_fault mn w \<noteq> None) \<and>
         (registered_info h fp w \<noteq> None \<and> registry_write_fault mn w \<noteq> None \<and>
          mn \<noteq> ''core.database'' \<and> ErrorLog_shadow w = None \<longrightarrow> res = Returns False)"
  using load_module_effect [OF assms] by auto

theorem load_module_failure_effect_witness:
  "fst (load_module plain_host hello_path ''hello'' False
          (world_running_hello\<lparr>db_faults := [None, Some disk_full]\<rparr>)) = Returns False \<and>
   modules_table (snd (load_module plain_host hello_path ''hello'' False
          (world_running_hello\<lparr>db_faults := [None, Some disk_full]\<rparr>)))
     = [''hello'' \<mapsto> hello_row] \<and>
   loaded_modules (snd (load_module plain_host hello_path ''hello'' False
          (world_running_hello\<lparr>db_faults := [None, Some disk_full]\<rparr>)))
     = [''hello'' \<mapsto> hello_info] \<and>
   loaded_modules (world_running_hello\<lparr>db_faults := [None, Some disk_full]\<rparr>)
     = [''hello'' \<mapsto> hello_info\<lparr>description := ''old version''\<rparr>]"
proof -
  let ?w = "world_running_hello\<lparr>db_faults := [None, Some disk_full]\<rparr>"
  have ri: "registered_info plain_host hello_path ?w = Some hello_info"
    by (simp add: registered_info_def world_running_hello_def fresh_world_def hello_module_def)
  have rw: "registry_write_fault ''hello'' ?w = Some disk_full"
    by (simp add: registry_write_fault_def world_running_hello_def fresh_world_def)
  have sh: "ErrorLog_shadow ?w = None"
    by (simp add: ErrorLog_shadow_def world_running_hello_def fresh_world_def)
  have st: "modules_table ?w = [''hello'' \<mapsto> hello_row]"
    "loaded_modules ?w = [''hello'' \<mapsto> hello_info\<lparr>description := ''old version''\<rparr>]"
    by (simp_all add: world_running_hello_def fresh_world_def)
  have hi: "hello_info\<lparr>info_is_system := False\<rparr> = hello_info" by (simp add: hello_info_def)
  from load_module_failure_effect
         [of plain_host hello_path "''hello''" False ?w
             "fst (load_module plain_host hello_path ''hello'' False ?w)"
             "snd (load_module plain_host hello_path ''hello'' False ?w)"]
       ri rw sh st hi
  show ?thesis by simp
qed

theorem load_module_registry_fault_counterexample:
  "fst (load_module plain_host hello_path ''hello'' False
          (world_with_hello\<lparr>db_faults := [Some disk_full]\<rparr>)) = Returns False \<and>
   loaded_modules (snd (load_module plain_host hello_path ''hello'' False
          (world_with_hello\<lparr>db_faults := [Some disk_full]\<rparr>))) ''hello'' = Some hello_info \<and>
   loaded_modules (world_with_hello\<lparr>db_faults := [Some disk_full]\<rparr>) ''hello'' = None"
  by (simp add: eval_defs)

lemma load_module_try_raises:
  "files w fp = Some a \<Longrightarrow> has_loader a \<Longrightarrow> exec_module a = Some r \<Longrightarrow>
     load_module_try h fp mn sys w =
       (Inl r, w\<lparr>sys_modules := (sys_modules w)(mn \<mapsto> ArtifactModule a)\<rparr>)"
  "files w fp = Some a \<Longrightarrow> has_loader a \<Longrightarrow> exec_module a = None \<Longrightarrow> has_register a \<Longrightarrow>
     provision h a mn (w\<lparr>sys_modules := (sys_modules w)(mn \<mapsto> ArtifactModule a)\<rparr>) = (True, w2) \<Longrightarrow>
     register a = Inl r \<Longrightarrow> load_module_try h fp mn sys w = (Inl r, w2)"
  by (simp_all add: load_module_try_def)

lemma add_module_faults_iff:
  "fst (add_module nm fp sys w) = Inl e \<longleftrightarrow> registry_write_fault nm w = Some e"
  by (cases "registry_write_fault nm w") (simp_all add: add_module_fault)

section \<open>Containment at the load boundary\<close>

text \<open>
  Claim C2, as amended. The handler of \<^verbatim>\<open>load_module\<close> is \<^verbatim>\<open>except Exception\<close>.
  The first three conjuncts say where faults enter the \<^verbatim>\<open>try\<close> block: what the
  module's execution raises, what \<^verbatim>\<open>register\<close> raises, and the storage fault of the
  Registry write (\<^verbatim>\<open>ModuleRecord.add_module\<close> raising \<open>e\<close>, which is what
  \<open>registry_write_fault\<close> computes). An instance of \<^verbatim>\<open>Exception\<close> whose \<^verbatim>\<open>__str__\<close>
  returns is caught when \<^verbatim>\<open>sys.modules["core.database"]\<close> is the host's module (the
  name loaded is not \<^verbatim>\<open>core.database\<close> and no artifact sits under that name): the
  call returns \<^verbatim>\<open>False\<close>, the log gets the \<^verbatim>\<open>ERROR\<close> line of the fault, and a row with
  the module name, the exception's type and message and the traceback is appended to
  \<^verbatim>\<open>error_logs\<close> exactly when the insert of that row does not itself fault; a
  faulting insert adds no row and is logged by \<^verbatim>\<open>ErrorLog.log_error\<close>.
  Three kinds of fault leave \<^verbatim>\<open>load_module\<close>: a \<^verbatim>\<open>BaseException\<close> that is not an
  \<^verbatim>\<open>Exception\<close> (\<^verbatim>\<open>SystemExit\<close>, \<^verbatim>\<open>KeyboardInterrupt\<close>), which the handler does
  not match; what the \<^verbatim>\<open>__str__\<close> of the caught exception raises when the handler
  formats it; and the \<^verbatim>\<open>ImportError\<close> of \<^verbatim>\<open>from core.database import ErrorLog\<close>
  when \<^verbatim>\<open>sys.modules["core.database"]\<close> is an artifact's module without
  \<^verbatim>\<open>ErrorLog\<close>.
\<close>

theorem load_module_contains_exceptions:
  "(files w fp = Some a \<and> has_loader a \<and> exec_module a = Some r \<longrightarrow>
      fst (load_module_try h fp mn sys w) = Inl r) \<and>
   (files w fp = Some a \<and> has_loader a \<and> exec_module a = None \<and> has_register a \<and>
    fst (provision h a mn (w\<lparr>sys_modules := (sys_modules w)(mn \<mapsto> ArtifactModule a)\<rparr>)) \<and>
    register a = Inl r \<longrightarrow>
      fst (load_module_try h fp mn sys w) = Inl r) \<and>
   (registered_info h fp w = Some mi \<and> fst (add_module mn fp sys w) = Inl e \<longrightarrow>
      registry_write_fault mn w = Some e \<and>
      fst (load_module_try h fp mn sys w) = Inl (ExceptionInstance e None)) \<and>
   (load_module_try h fp mn sys w = (Inl (ExceptionInstance e None), w1) \<and>
    mn \<noteq> ''core.database'' \<and> ErrorLog_shadow w = None \<longrightarrow>
      fst (load_module h fp mn sys w) = Returns False \<and>
      log (snd (load_module h fp mn sys w)) =
        log w1 @ [(ERROR, ErrorLoadingModule mn e)] @
        (case next_fault w1 of
           None \<Rightarrow> []
         | Some f \<Rightarrow> [(ERROR, ErrorLoggingToDatabase f)]) \<and>
      error_logs (snd (load_module h fp mn sys w)) =
        (case next_fault w1 of
           None \<Rightarrow> error_logs w @
                    [\<lparr>log_module_name = Some mn, error_type = exc_type e,
                      error_message = exc_message e, traceback = Some (exc_traceback e),
                      created_at = clock w\<rparr>]
         | Some f \<Rightarrow> error_logs w)) \<and>
   (load_module_try h fp mn sys w = (Inl (BaseExceptionInstance e), w1) \<longrightarrow>
      load_module h fp mn sys w = (Propagates (BaseExceptionInstance e), w1)) \<and>
   (load_module_try h fp mn sys w = (Inl (ExceptionInstance e (Some r)), w1) \<longrightarrow>
      load_module h fp mn sys w = (Propagates r, w1)) \<and>
   (load_module_try h fp mn sys w = (Inl (ExceptionInstance e None), w1) \<and>
    ErrorLog_shadow w1 = Some a \<and> ErrorLog_attr a = None \<longrightarrow>
      load_module h fp mn sys w =
        (Propagates ImportError, logger_error (ErrorLoadingModule mn e) w1))"
proof (intro conjI impI)
  assume "files w fp = Some a \<and> has_loader a \<and> exec_module a = Some r"
  then show "fst (load_module_try h fp mn sys w) = Inl r"
    by (simp add: load_module_try_raises(1))
next
  let ?w0 = "w\<lparr>sys_modules := (sys_modules w)(mn \<mapsto> ArtifactModule a)\<rparr>"
  assume a: "files w fp = Some a \<and> has_loader a \<and> exec_module a = None \<and> has_register a \<and>
    fst (provision h a mn ?w0) \<and> register a = Inl r"
  obtain w2 where "provision h a mn ?w0 = (True, w2)"
    using a by (cases "provision h a mn ?w0") auto
  with a show "fst (load_module_try h fp mn sys w) = Inl r"
    by (simp add: load_module_try_raises(2))
next
  assume a: "registered_info h fp w = Some mi \<and> fst (add_module mn fp sys w) = Inl e"
  then show f: "registry_write_fault mn w = Some e" by (simp add: add_module_faults_iff)
  obtain res w1 where t: "load_module_try h fp mn sys w = (res, w1)"
    by (cases "load_module_try h fp mn sys w")
  from load_module_try_state [OF t] a f have "res = Inl (ExceptionInstance e None)" by simp
  with t show "fst (load_module_try h fp mn sys w) = Inl (ExceptionInstance e None)" by simp
next
  assume a: "load_module_try h fp mn sys w = (Inl (ExceptionInstance e None), w1) \<and>
    mn \<noteq> ''core.database'' \<and> ErrorLog_shadow w = None"
  then have t: "load_module_try h fp mn sys w = (Inl (ExceptionInstance e None), w1)"
    and n: "mn \<noteq> ''core.database''" and s: "ErrorLog_shadow w = None" by simp_all
  note ce = load_module_caught_effect [OF t n s]
  from ce show "fst (load_module h fp mn sys w) = Returns False" by simp
  from ce show "log (snd (load_module h fp mn sys w)) =
        log w1 @ [(ERROR, ErrorLoadingModule mn e)] @
        (case next_fault w1 of
           None \<Rightarrow> []
         | Some f \<Rightarrow> [(ERROR, ErrorLoggingToDatabase f)])" by simp
  from ce show "error_logs (snd (load_module h fp mn sys w)) =
        (case next_fault w1 of
           None \<Rightarrow> error_logs w @
                    [\<lparr>log_module_name = Some mn, error_type = exc_type e,
                      error_message = exc_message e, traceback = Some (exc_traceback e),
                      created_at = clock w\<rparr>]
         | Some f \<Rightarrow> error_logs w)" by simp
next
  assume "load_module_try h fp mn sys w = (Inl (BaseExceptionInstance e), w1)"
  then show "load_module h fp mn sys w = (Propagates (BaseExceptionInstance e), w1)"
    by (simp add: load_module_def)
next
  assume "load_module_try h fp mn sys w = (Inl (ExceptionInstance e (Some r)), w1)"
  then show "load_module h fp mn sys w = (Propagates r, w1)"
    by (simp add: load_module_def)
next
  assume a: "load_module_try h fp mn sys w = (Inl (ExceptionInstance e None), w1) \<and>
    ErrorLog_shadow w1 = Some a \<and> ErrorLog_attr a = None"
  then have "ErrorLog_shadow (logger_error (ErrorLoadingModule mn e) w1) = Some a"
    by (simp add: ErrorLog_shadow_def)
  with a show "load_module h fp mn sys w =
        (Propagates ImportError, logger_error (ErrorLoadingModule mn e) w1)"
    by (simp add: load_module_def Let_def)
qed

theorem load_module_contains_exceptions_witness:
  "fst (load_module plain_host hello_path ''hello'' False
     (world_running_hello\<lparr>files := [hello_path \<mapsto>
                                         raising_module (ExceptionInstance value_error None)]\<rparr>))
   = Returns False \<and>
   error_logs (snd (load_module plain_host hello_path ''hello'' False
     (world_running_hello\<lparr>files := [hello_path \<mapsto>
                                         raising_module (ExceptionInstance value_error None)]\<rparr>)))
   = [\<lparr>log_module_name = Some ''hello'', error_type = ''ValueError'',
       error_message = ''bad value'', traceback = Some ''Traceback'', created_at = 0\<rparr>] \<and>
   log (snd (load_module plain_host hello_path ''hello'' False
     (world_running_hello\<lparr>files := [hello_path \<mapsto>
                                         raising_module (ExceptionInstance value_error None)]\<rparr>)))
   = [(ERROR, ErrorLoadingModule ''hello'' value_error)] \<and>
   fst (load_module_try plain_host hello_path ''hello'' False
          (world_with_hello\<lparr>db_faults := [Some disk_full]\<rparr>))
   = Inl (ExceptionInstance disk_full None) \<and>
   load_module plain_host hello_path ''hello'' False
     (fresh_world\<lparr>files := [hello_path \<mapsto>
                                register_raising_module (BaseExceptionInstance system_exit)]\<rparr>)
   = (Propagates (BaseExceptionInstance system_exit),
      fresh_world\<lparr>files := [hello_path \<mapsto>
                                 register_raising_module (BaseExceptionInstance system_exit)],
                   sys_modules := [''core.database'' \<mapsto> HostModule,
                                   ''hello'' \<mapsto> ArtifactModule
                                      (register_raising_module (BaseExceptionInstance system_exit))]\<rparr>)"
proof -
  let ?a = "raising_module (ExceptionInstance value_error None)"
  let ?b = "register_raising_module (BaseExceptionInstance system_exit)"
  let ?w = "world_running_hello\<lparr>files := [hello_path \<mapsto> ?a]\<rparr>"
  let ?w1 = "?w\<lparr>sys_modules := (sys_modules ?w)(''hello'' \<mapsto> ArtifactModule ?a)\<rparr>"
  let ?u = "world_with_hello\<lparr>db_faults := [Some disk_full]\<rparr>"
  let ?v = "fresh_world\<lparr>files := [hello_path \<mapsto> ?b]\<rparr>"
  let ?v1 = "?v\<lparr>sys_modules := [''core.database'' \<mapsto> HostModule,
                                  ''hello'' \<mapsto> ArtifactModule ?b]\<rparr>"
  have t: "load_module_try plain_host hello_path ''hello'' False ?w
             = (Inl (ExceptionInstance value_error None), ?w1)"
    by (simp add: load_module_try_def raising_module_def hello_module_def)
  have n: "''hello'' \<noteq> ''core.database''" by simp
  have s: "ErrorLog_shadow ?w = None"
    by (simp add: ErrorLog_shadow_def world_running_hello_def fresh_world_def)
  have st: "next_fault ?w1 = None" "error_logs ?w = []" "clock ?w = 0" "log ?w1 = []"
    by (simp_all add: next_fault_def world_running_hello_def fresh_world_def)
  from load_module_contains_exceptions
         [where h = plain_host and fp = hello_path and mn = "''hello''" and sys = False
            and w = ?w and ?w1.0 = ?w1 and e = value_error] t n s st
  have 1: "fst (load_module plain_host hello_path ''hello'' False ?w) = Returns False \<and>
           error_logs (snd (load_module plain_host hello_path ''hello'' False ?w))
             = [\<lparr>log_module_name = Some ''hello'', error_type = ''ValueError'',
                 error_message = ''bad value'', traceback = Some ''Traceback'',
                 created_at = 0\<rparr>] \<and>
           log (snd (load_module plain_host hello_path ''hello'' False ?w))
             = [(ERROR, ErrorLoadingModule ''hello'' value_error)]"
    by (simp add: value_error_def)
  have ri: "registered_info plain_host hello_path ?u = Some hello_info"
    by (simp add: registered_info_def world_with_hello_def fresh_world_def hello_module_def)
  have af: "fst (add_module ''hello'' hello_path False ?u) = Inl disk_full"
    by (simp add: add_module_def db_call_def world_with_hello_def fresh_world_def)
  from load_module_contains_exceptions
         [where h = plain_host and fp = hello_path and mn = "''hello''" and sys = False
            and w = ?u and mi = hello_info and e = disk_full] ri af
  have 2: "fst (load_module_try plain_host hello_path ''hello'' False ?u)
             = Inl (ExceptionInstance disk_full None)" by simp
  have u: "load_module_try plain_host hello_path ''hello'' False ?v
             = (Inl (BaseExceptionInstance system_exit), ?v1)"
    by (simp add: eval_defs register_raising_module_def fun_upd_twist)
  from load_module_contains_exceptions
         [where h = plain_host and fp = hello_path and mn = "''hello''" and sys = False
            and w = ?v and ?w1.0 = ?v1 and e = system_exit] u
  have 3: "load_module plain_host hello_path ''hello'' False ?v
             = (Propagates (BaseExceptionInstance system_exit), ?v1)" by simp
  from 1 2 3 show ?thesis by simp
qed

theorem load_module_system_exit_counterexample:
  "fst (load_module plain_host hello_path ''hello'' False
     (fresh_world\<lparr>files := [hello_path \<mapsto> raising_module (BaseExceptionInstance system_exit)]\<rparr>))
   = Propagates (BaseExceptionInstance system_exit) \<and>
   load_module plain_host hello_path ''hello'' False
     (fresh_world\<lparr>files := [hello_path \<mapsto> raising_module unprintable]\<rparr>)
   = (Propagates (ExceptionInstance
                   (PyException ''TypeError'' ''__str__ returned non-string'' ''Traceback'') None),
      fresh_world\<lparr>files := [hello_path \<mapsto> raising_module unprintable],
                   sys_modules := [''core.database'' \<mapsto> HostModule,
                                   ''hello'' \<mapsto> ArtifactModule (raising_module unprintable)]\<rparr>) \<and>
   fst (load_module plain_host database_path ''core.database'' False
     (fresh_world\<lparr>files := [database_path \<mapsto>
                                raising_module (ExceptionInstance value_error None)]\<rparr>))
   = Propagates ImportError \<and>
   error_logs (snd (load_module plain_host database_path ''core.database'' False
     (fresh_world\<lparr>files := [database_path \<mapsto>
                                raising_module (ExceptionInstance value_error None)]\<rparr>))) = [] \<and>
   fst (load_module plain_host hello_path ''hello'' False
     (fresh_world\<lparr>files := [hello_path \<mapsto> raising_module (ExceptionInstance value_error None)],
                   db_faults := [Some disk_full]\<rparr>))
   = Returns False \<and>
   error_logs (snd (load_module plain_host hello_path ''hello'' False
     (fresh_world\<lparr>files := [hello_path \<mapsto> raising_module (ExceptionInstance value_error None)],
                   db_faults := [Some disk_full]\<rparr>))) = []"
  by (simp add: eval_defs raising_module_def unprintable_def database_path_def value_error_def
                fun_upd_twist)

lemma provision_failure_logged:
  assumes "provision h a mn w = (False, w2)"
  shows "\<exists>l m. log w2 = log w @ l @ [(ERROR, m)]"
proof -
  from assms obtain deps where d: "DEPENDENCIES a = Some deps" "deps \<noteq> []"
    and i: "install_dependencies h deps mn w = (False, w2)"
    by (auto simp: provision_def split: option.splits if_splits)
  let ?w0 = "logger_info (InstallingDependencies mn deps) w"
  from i have e: "install_each h deps mn ?w0 = (False, w2)"
    by (simp add: install_dependencies_def)
  from e install_each_result [of h deps mn ?w0] have "\<not> list_all (installs h) deps" by simp
  then have "dropWhile (installs h) deps \<noteq> []" by (simp add: list_all_iff)
  then obtain x xs where dw: "dropWhile (installs h) deps = x # xs"
    by (cases "dropWhile (installs h) deps") auto
  from install_each_log [of h deps mn ?w0] e dw
  have "log w2 = log w @ [(INFO, InstallingDependencies mn deps)] @ [(ERROR, install_report h mn x)]"
    by simp
  then show ?thesis by blast
qed

lemma load_module_try_False_logged:
  assumes "load_module_try h fp mn sys w = (Inr False, w1)"
  shows "\<exists>l m. log w1 = log w @ l @ [(ERROR, m)]"
proof (cases "files w fp")
  case None
  with assms show ?thesis by (auto simp: load_module_try_def)
next
  case (Some a)
  let ?w0 = "w\<lparr>sys_modules := (sys_modules w)(mn \<mapsto> ArtifactModule a)\<rparr>"
  show ?thesis
  proof (cases "has_loader a \<and> exec_module a = None \<and> has_register a")
    case False
    with assms Some show ?thesis
      by (cases "exec_module a"; cases "has_loader a"; cases "has_register a")
         (auto simp: load_module_try_def)
  next
    case True
    obtain ok w2 where p: "provision h a mn ?w0 = (ok, w2)" by (cases "provision h a mn ?w0")
    show ?thesis
    proof (cases ok)
      case False
      with assms Some True p have "w1 = w2" by (auto simp: load_module_try_def)
      moreover from p False have "provision h a mn ?w0 = (False, w2)" by simp
      ultimately show ?thesis using provision_failure_logged [of h a mn ?w0 w2] by simp
    next
      case ok: True
      show ?thesis
      proof (cases "register a")
        case (Inl r)
        with assms Some True p ok show ?thesis by (auto simp: load_module_try_def)
      next
        case (Inr v)
        show ?thesis
        proof (cases v)
          case NotModuleInfo
          with Inr assms Some True p ok have w1: "w1 = logger_error (InvalidModuleInfo mn) w2"
            by (auto simp: load_module_try_def)
          have "\<exists>l. log w2 = log w @ l"
          proof (cases "DEPENDENCIES a")
            case None
            with p show ?thesis by (auto simp: provision_def)
          next
            case (Some deps)
            show ?thesis
            proof (cases "deps = []")
              case True
              with Some p show ?thesis by (auto simp: provision_def)
            next
              case False
              with Some p have "install_each h deps mn (logger_info (InstallingDependencies mn deps) ?w0) = (ok, w2)"
                by (simp add: provision_def install_dependencies_def)
              with install_each_log [of h deps mn "logger_info (InstallingDependencies mn deps) ?w0"]
              show ?thesis by simp
            qed
          qed
          with w1 show ?thesis by auto
        next
          case (IsModuleInfo mi)
          let ?w3 = "w2\<lparr>loaded_modules := (loaded_modules w2)(mn \<mapsto> mi\<lparr>info_is_system := sys\<rparr>)\<rparr>"
          obtain ra w4 where a: "add_module mn fp sys ?w3 = (ra, w4)"
            by (cases "add_module mn fp sys ?w3")
          with IsModuleInfo Inr assms Some True p ok show ?thesis
            by (cases ra) (auto simp: load_module_try_def)
        qed
      qed
    qed
  qed
qed

section \<open>Which failures reach the Error Sink\<close>

text \<open>
  Claim C3, as amended. The failures that end the \<^verbatim>\<open>try\<close> block with
  \<^verbatim>\<open>return False\<close> (file missing or no loader: ArtifactNotFound; no \<^verbatim>\<open>register\<close> or
  a result that is not a \<^verbatim>\<open>ModuleInfo\<close>: InvalidModuleSchema; a failed installation:
  ProvisionError) are reported to the caller, \<^verbatim>\<open>load_module\<close> returns \<^verbatim>\<open>False\<close>; the
  call appends lines to the log of which the last is an \<^verbatim>\<open>ERROR\<close> line; and they add
  no row to \<^verbatim>\<open>error_logs\<close>. A caught exception (ExecutionFault: an instance of
  \<^verbatim>\<open>Exception\<close> whose \<^verbatim>\<open>__str__\<close> returns, with \<^verbatim>\<open>sys.modules["core.database"]\<close>
  the host's module) is reported with \<^verbatim>\<open>False\<close> and written to the log as an
  \<^verbatim>\<open>ERROR\<close> line whether or not the Error Sink can be written; its row is appended
  to \<^verbatim>\<open>error_logs\<close> when the insert does not fault, and no row is when it does.
\<close>

theorem load_module_failure_reporting:
  "(load_module_try h fp mn sys w = (Inr False, w1) \<longrightarrow>
      load_module h fp mn sys w = (Returns False, w1) \<and> error_logs w1 = error_logs w \<and>
      (\<exists>l m. log w1 = log w @ l @ [(ERROR, m)])) \<and>
   (files w fp = None \<longrightarrow> fst (load_module_try h fp mn sys w) = Inr False) \<and>
   (files w fp = Some a \<and> \<not> has_loader a \<longrightarrow> fst (load_module_try h fp mn sys w) = Inr False) \<and>
   (files w fp = Some a \<and> has_loader a \<and> exec_module a = None \<and> \<not> has_register a \<longrightarrow>
      fst (load_module_try h fp mn sys w) = Inr False) \<and>
   (files w fp = Some a \<and> has_loader a \<and> exec_module a = None \<and> has_register a \<and>
    \<not> fst (provision h a mn (w\<lparr>sys_modules := (sys_modules w)(mn \<mapsto> ArtifactModule a)\<rparr>)) \<longrightarrow>
      fst (load_module_try h fp mn sys w) = Inr False) \<and>
   (files w fp = Some a \<and> has_loader a \<and> exec_module a = None \<and> has_register a \<and>
    fst (provision h a mn (w\<lparr>sys_modules := (sys_modules w)(mn \<mapsto> ArtifactModule a)\<rparr>)) \<and>
    register a = Inr NotModuleInfo \<longrightarrow>
      fst (load_module_try h fp mn sys w) = Inr False) \<and>
   (load_module_try h fp mn sys w = (Inl (ExceptionInstance e None), w1) \<and>
    mn \<noteq> ''core.database'' \<and> ErrorLog_shadow w = None \<longrightarrow>
      fst (load_module h fp mn sys w) = Returns False \<and>
      (\<exists>l. log (snd (load_module h fp mn sys w)) =
             log w1 @ [(ERROR, ErrorLoadingModule mn e)] @ l) \<and>
      (next_fault w1 = None \<longrightarrow>
         error_logs (snd (load_module h fp mn sys w)) =
           error_logs w @ [\<lparr>log_module_name = Some mn, error_type = exc_type e,
                            error_message = exc_message e, traceback = Some (exc_traceback e),
                            created_at = clock w\<rparr>]) \<and>
      (next_fault w1 \<noteq> None \<longrightarrow>
         error_logs (snd (load_module h fp mn sys w)) = error_logs w))"
proof (intro conjI impI)
  assume t: "load_module_try h fp mn sys w = (Inr False, w1)"
  note st = load_module_try_state [OF t]
  show "load_module h fp mn sys w = (Returns False, w1)"
    using t by (simp add: load_module_def)
  show "error_logs w1 = error_logs w" using st by simp
  show "\<exists>l m. log w1 = log w @ l @ [(ERROR, m)]" by (rule load_module_try_False_logged [OF t])
next
  assume "files w fp = None"
  then show "fst (load_module_try h fp mn sys w) = Inr False" by (simp add: load_module_try_def)
next
  assume "files w fp = Some a \<and> \<not> has_loader a"
  then show "fst (load_module_try h fp mn sys w) = Inr False" by (simp add: load_module_try_def)
next
  assume "files w fp = Some a \<and> has_loader a \<and> exec_module a = None \<and> \<not> has_register a"
  then show "fst (load_module_try h fp mn sys w) = Inr False" by (simp add: load_module_try_def)
next
  let ?w0 = "w\<lparr>sys_modules := (sys_modules w)(mn \<mapsto> ArtifactModule a)\<rparr>"
  assume a: "files w fp = Some a \<and> has_loader a \<and> exec_module a = None \<and> has_register a \<and>
    \<not> fst (provision h a mn ?w0)"
  then obtain w2 where "provision h a mn ?w0 = (False, w2)"
    by (cases "provision h a mn ?w0") auto
  with a show "fst (load_module_try h fp mn sys w) = Inr False" by (simp add: load_module_try_def)
next
  let ?w0 = "w\<lparr>sys_modules := (sys_modules w)(mn \<mapsto> ArtifactModule a)\<rparr>"
  assume a: "files w fp = Some a \<and> has_loader a \<and> exec_module a = None \<and> has_register a \<and>
    fst (provision h a mn ?w0) \<and> register a = Inr NotModuleInfo"
  then obtain w2 where "provision h a mn ?w0 = (True, w2)"
    by (cases "provision h a mn ?w0") auto
  with a show "fst (load_module_try h fp mn sys w) = Inr False" by (simp add: load_module_try_def)
next
  assume a: "load_module_try h fp mn sys w = (Inl (ExceptionInstance e None), w1) \<and>
    mn \<noteq> ''core.database'' \<and> ErrorLog_shadow w = None"
  then have t: "load_module_try h fp mn sys w = (Inl (ExceptionInstance e None), w1)"
    and n: "mn \<noteq> ''core.database''" and s: "ErrorLog_shadow w = None" by simp_all
  note ce = load_module_caught_effect [OF t n s]
  from ce show "fst (load_module h fp mn sys w) = Returns False" by simp
  from ce show "\<exists>l. log (snd (load_module h fp mn sys w)) =
             log w1 @ [(ERROR, ErrorLoadingModule mn e)] @ l" by simp
  { assume "next_fault w1 = None"
    with ce show "error_logs (snd (load_module h fp mn sys w)) =
           error_logs w @ [\<lparr>log_module_name = Some mn, error_type = exc_type e,
                            error_message = exc_message e, traceback = Some (exc_traceback e),
                            created_at = clock w\<rparr>]" by simp }
  { assume "next_fault w1 \<noteq> None"
    with ce show "error_logs (snd (load_module h fp mn sys w)) = error_logs w" by auto }
qed

theorem load_module_failure_reporting_witness:
  "load_module plain_host ''modules/user/nofile.py'' ''nofile'' False world_running_hello
     = (Returns False,
        logger_error (ModuleFileNotFound ''modules/user/nofile.py'') world_running_hello) \<and>
   fst (load_module_try plain_host hello_path ''hello'' False
          (fresh_world\<lparr>files := [hello_path \<mapsto> hello_module\<lparr>has_loader := False\<rparr>]\<rparr>)) = Inr False \<and>
   fst (load_module_try plain_host hello_path ''hello'' False
          (fresh_world\<lparr>files := [hello_path \<mapsto> hello_module\<lparr>has_register := False\<rparr>]\<rparr>)) = Inr False \<and>
   fst (load_module_try pip_host hello_path ''hello'' False
          (fresh_world\<lparr>files := [hello_path \<mapsto> hello_module\<lparr>DEPENDENCIES := Some [''nosuchpkg'']\<rparr>]\<rparr>))
     = Inr False \<and>
   fst (load_module_try plain_host hello_path ''hello'' False
          (fresh_world\<lparr>files := [hello_path \<mapsto> hello_module\<lparr>register := Inr NotModuleInfo\<rparr>]\<rparr>)) = Inr False \<and>
   fst (load_module plain_host hello_path ''hello'' False
          (fresh_world\<lparr>files := [hello_path \<mapsto> raising_module (ExceptionInstance value_error None)]\<rparr>))
     = Returns False \<and>
   error_logs (snd (load_module plain_host hello_path ''hello'' False
          (fresh_world\<lparr>files := [hello_path \<mapsto> raising_module (ExceptionInstance value_error None)]\<rparr>)))
     = [\<lparr>log_module_name = Some ''hello'', error_type = ''ValueError'',
         error_message = ''bad value'', traceback = Some ''Traceback'',
         created_at = 0\<rparr>]"
proof -
  let ?nf = "''modules/user/nofile.py''"
  let ?a3 = "hello_module\<lparr>has_loader := False\<rparr>"
  let ?a4 = "hello_module\<lparr>has_register := False\<rparr>"
  let ?a5 = "hello_module\<lparr>DEPENDENCIES := Some [''nosuchpkg'']\<rparr>"
  let ?a6 = "hello_module\<lparr>register := Inr NotModuleInfo\<rparr>"
  let ?a7 = "raising_module (ExceptionInstance value_error None)"
  let ?W = "\<lambda>a. fresh_world\<lparr>files := [hello_path \<mapsto> a]\<rparr>"
  let ?S = "\<lambda>a. (?W a)\<lparr>sys_modules := (sys_modules (?W a))(''hello'' \<mapsto> ArtifactModule a)\<rparr>"
  have h1: "load_module_try plain_host ?nf ''nofile'' False world_running_hello
              = (Inr False, logger_error (ModuleFileNotFound ?nf) world_running_hello)"
    by (simp add: load_module_try_def world_running_hello_def fresh_world_def hello_path_def)
  have h3: "files (?W ?a3) hello_path = Some ?a3 \<and> \<not> has_loader ?a3" by simp
  have h4: "files (?W ?a4) hello_path = Some ?a4 \<and> has_loader ?a4 \<and> exec_module ?a4 = None \<and>
            \<not> has_register ?a4" by (simp add: hello_module_def)
  have h5: "files (?W ?a5) hello_path = Some ?a5 \<and> has_loader ?a5 \<and> exec_module ?a5 = None \<and>
            has_register ?a5 \<and> \<not> fst (provision pip_host ?a5 ''hello'' (?S ?a5))"
    by (simp add: hello_module_def provision_def install_dependencies_def pip_host_def
                  sample_host_def failing_pip_def pip_install_def)
  have h6: "files (?W ?a6) hello_path = Some ?a6 \<and> has_loader ?a6 \<and> exec_module ?a6 = None \<and>
            has_register ?a6 \<and> fst (provision plain_host ?a6 ''hello'' (?S ?a6)) \<and>
            register ?a6 = Inr NotModuleInfo"
    by (simp add: hello_module_def provision_def)
  have h7: "load_module_try plain_host hello_path ''hello'' False (?W ?a7)
              = (Inl (ExceptionInstance value_error None), ?S ?a7) \<and>
            ''hello'' \<noteq> ''core.database'' \<and> ErrorLog_shadow (?W ?a7) = None"
    by (simp add: load_module_try_def raising_module_def hello_module_def ErrorLog_shadow_def
                  fresh_world_def)
  have n7: "next_fault (?S ?a7) = None" by (simp add: next_fault_def fresh_world_def)
  from load_module_failure_reporting
         [where h = plain_host and fp = ?nf and mn = "''nofile''" and sys = False
            and w = world_running_hello
            and ?w1.0 = "logger_error (ModuleFileNotFound ?nf) world_running_hello"] h1
  have c1: "load_module plain_host ?nf ''nofile'' False world_running_hello
              = (Returns False, logger_error (ModuleFileNotFound ?nf) world_running_hello)"
    by simp
  from load_module_failure_reporting
         [where h = plain_host and fp = hello_path and mn = "''hello''" and sys = False
            and w = "?W ?a3" and a = ?a3] h3
  have c3: "fst (load_module_try plain_host hello_path ''hello'' False (?W ?a3)) = Inr False"
    by simp
  from load_module_failure_reporting
         [where h = plain_host and fp = hello_path and mn = "''hello''" and sys = False
            and w = "?W ?a4" and a = ?a4] h4
  have c4: "fst (load_module_try plain_host hello_path ''hello'' False (?W ?a4)) = Inr False"
    by simp
  from load_module_failure_reporting
         [where h = pip_host and fp = hello_path and mn = "''hello''" and sys = False
            and w = "?W ?a5" and a = ?a5] h5
  have c5: "fst (load_module_try pip_host hello_path ''hello'' False (?W ?a5)) = Inr False"
    by simp
  from load_module_failure_reporting
         [where h = plain_host and fp = hello_path and mn = "''hello''" and sys = False
            and w = "?W ?a6" and a = ?a6] h6
  have c6: "fst (load_module_try plain_host hello_path ''hello'' False (?W ?a6)) = Inr False"
    by simp
  from load_module_failure_reporting
         [where h = plain_host and fp = hello_path and mn = "''hello''" and sys = False
            and w = "?W ?a7" and ?w1.0 = "?S ?a7" and e = value_error] h7 n7
  have c7: "fst (load_module plain_host hello_path ''hello'' False (?W ?a7)) = Returns False \<and>
        error_logs (snd (load_module plain_host hello_path ''hello'' False (?W ?a7))) =
        error_logs (?W ?a7) @ [\<lparr>log_module_name = Some ''hello'', error_type = exc_type value_error,
                         error_message = exc_message value_error,
                         traceback = Some (exc_traceback value_error),
                         created_at = clock (?W ?a7)\<rparr>]" by simp
  from c1 c3 c4 c5 c6 c7 show ?thesis by (simp add: fresh_world_def value_error_def)
qed

theorem load_module_unlogged_failure_counterexample:
  "fst (load_module plain_host ''modules/user/nofile.py'' ''nofile'' False fresh_world)
     = Returns False \<and>
   error_logs (snd (load_module plain_host ''modules/user/nofile.py'' ''nofile'' False fresh_world))
     = [] \<and>
   fst (load_module pip_host hello_path ''hello'' False
          (fresh_world\<lparr>files := [hello_path \<mapsto> hello_module\<lparr>DEPENDENCIES := Some [''nosuchpkg'']\<rparr>]\<rparr>))
     = Returns False \<and>
   error_logs (snd (load_module pip_host hello_path ''hello'' False
          (fresh_world\<lparr>files := [hello_path \<mapsto> hello_module\<lparr>DEPENDENCIES := Some [''nosuchpkg'']\<rparr>]\<rparr>)))
     = [] \<and>
   fst (load_module plain_host hello_path ''hello'' False
          (fresh_world\<lparr>files := [hello_path \<mapsto> hello_module\<lparr>register := Inr NotModuleInfo\<rparr>]\<rparr>))
     = Returns False \<and>
   error_logs (snd (load_module plain_host hello_path ''hello'' False
          (fresh_world\<lparr>files := [hello_path \<mapsto> hello_module\<lparr>register := Inr NotModuleInfo\<rparr>]\<rparr>)))
     = []"
  by (simp add: eval_defs pip_host_def failing_pip_def install_dependencies_def pip_install_def)

lemma unload_module_result:
  assumes "unload_module nm w = (b, w')"
  shows "loaded_modules w' = (loaded_modules w)(nm := None) \<and> modules_table w' = modules_table w \<and>
         files w' = files w \<and> error_logs w' = error_logs w \<and> db_faults w' = db_faults w \<and>
         clock w' = clock w \<and> subprocess_calls w' = subprocess_calls w"
  using assms by (auto simp: unload_module_def split: if_splits)

lemma registered_info_cong:
  "files w' = files w \<Longrightarrow> registered_info h fp w' = registered_info h fp w"
  by (simp add: registered_info_def)

lemma get_module_lookup:
  "fst (get_module nm w) = (case next_fault w of None \<Rightarrow> modules_table w nm | Some e \<Rightarrow> None)"
  "db_faults (snd (get_module nm w)) = tl (db_faults w)"
  by (cases "db_faults w"; cases "hd (db_faults w)";
      simp add: get_module_def db_call_def next_fault_def)+

lemma reload_module_not_found:
  assumes "fst (get_module mn w) = None"
  shows "fst (reload_module h mn w) = Returns False \<and>
      loaded_modules (snd (reload_module h mn w)) = loaded_modules w \<and>
      sys_modules (snd (reload_module h mn w)) = sys_modules w \<and>
      modules_table (snd (reload_module h mn w)) = modules_table w \<and>
      files (snd (reload_module h mn w)) = files w \<and>
      error_logs (snd (reload_module h mn w)) = error_logs w \<and>
      subprocess_calls (snd (reload_module h mn w)) = subprocess_calls w"
proof -
  obtain g w1 where g: "get_module mn w = (g, w1)" by (cases "get_module mn w")
  note gr = get_module_result [OF g]
  from g assms have "g = None" by simp
  with g have rl: "reload_module h mn w = (Returns False, w1)" by (simp add: reload_module_def)
  with gr show ?thesis by simp
qed

lemma reload_module_found:
  assumes r: "modules_table w mn = Some r" and nf: "next_fault w = None"
    and l: "load_module h (file_path r) mn (is_system r)
              (snd (unload_module mn (snd (get_module mn w)))) = (res, w2)"
  shows "(\<forall>b. res = Returns b \<longrightarrow> reload_module h mn w = (res, w2)) \<and>
         (fst (reload_module h mn w) = Returns True \<longleftrightarrow> res = Returns True) \<and>
         loaded_modules (snd (reload_module h mn w)) = loaded_modules w2 \<and>
         modules_table (snd (reload_module h mn w)) = modules_table w2 \<and>
         files (snd (reload_module h mn w)) = files w2"
proof -
  obtain g w1 where g: "get_module mn w = (g, w1)" by (cases "get_module mn w")
  from get_module_lookup(1) [of mn w] g r nf have "g = Some r" by simp
  with g l have rl: "reload_module h mn w =
     (case (res, w2) of
             (Returns b, w2) \<Rightarrow> (Returns b, w2)
           | (Propagates (BaseExceptionInstance e), w2) \<Rightarrow>
               (Propagates (BaseExceptionInstance e), w2)
           | (Propagates (ExceptionInstance e (Some r)), w2) \<Rightarrow> (Propagates r, w2)
           | (Propagates (ExceptionInstance e None), w2) \<Rightarrow>
               (Returns False, logger_error (ErrorReloadingModule mn e) w2))"
    by (simp add: reload_module_def)
  show ?thesis
  proof (cases res)
    case (Returns b)
    with rl show ?thesis by simp
  next
    case (Propagates x)
    show ?thesis
    proof (cases x)
      case (BaseExceptionInstance e)
      with Propagates rl show ?thesis by simp
    next
      case (ExceptionInstance e s)
      with Propagates rl show ?thesis by (cases s) simp_all
    qed
  qed
qed

section \<open>Reloading\<close>

text \<open>
  Claim C4, as amended. \<^verbatim>\<open>reload_module\<close> returns \<^verbatim>\<open>False\<close> and changes neither the
  Catalog nor \<^verbatim>\<open>sys.modules\<close>, the Registry, the files, the Error Sink or the
  installer history when its lookup yields no row: the name has no Registry row, or the
  lookup itself faults (\<^verbatim>\<open>get_module\<close> answers \<^verbatim>\<open>None\<close> then, also for a name that
  has a row, and a version that is loaded keeps running). When the name has a row and the
  lookup does not fault, the call is \<^verbatim>\<open>unload_module\<close> (result ignored) followed by
  \<^verbatim>\<open>load_module\<close> with the row's \<^verbatim>\<open>file_path\<close> and \<^verbatim>\<open>is_system\<close>: the Catalog
  afterwards is the old one with the name removed when the replacement does not get
  as far as the Catalog, and with the replacement's descriptor under the name when it
  does. The reload fails exactly when the replacement does not get that far or the
  storage faults in the Registry write; so after a failed reload the name is absent
  from the Catalog, except after a faulting Registry write, when the Catalog holds the
  replacement's descriptor. A failed reload leaves the Registry as it was; a successful
  one sets \<^verbatim>\<open>is_active\<close> and \<^verbatim>\<open>updated_at\<close> of the row. The version that ran
  before is restored in no case.
\<close>

theorem reload_module_effect:
  "(modules_table w mn = None \<or> next_fault w \<noteq> None \<longrightarrow>
      fst (reload_module h mn w) = Returns False \<and>
      loaded_modules (snd (reload_module h mn w)) = loaded_modules w \<and>
      sys_modules (snd (reload_module h mn w)) = sys_modules w \<and>
      modules_table (snd (reload_module h mn w)) = modules_table w \<and>
      files (snd (reload_module h mn w)) = files w \<and>
      error_logs (snd (reload_module h mn w)) = error_logs w \<and>
      subprocess_calls (snd (reload_module h mn w)) = subprocess_calls w) \<and>
   (modules_table w mn = Some r \<and> next_fault w = None \<longrightarrow>
      (\<forall>b. fst (load_module h (file_path r) mn (is_system r)
                  (snd (unload_module mn (snd (get_module mn w))))) = Returns b \<longrightarrow>
           reload_module h mn w =
             load_module h (file_path r) mn (is_system r)
               (snd (unload_module mn (snd (get_module mn w))))) \<and>
      loaded_modules (snd (reload_module h mn w)) =
        (case registered_info h (file_path r) w of
           None \<Rightarrow> (loaded_modules w)(mn := None)
         | Some mi \<Rightarrow> (loaded_modules w)(mn \<mapsto> mi\<lparr>info_is_system := is_system r\<rparr>)) \<and>
      (fst (reload_module h mn w) \<noteq> Returns True \<longleftrightarrow>
         registered_info h (file_path r) w = None \<or>
         registry_write_fault mn (snd (get_module mn w)) \<noteq> None) \<and>
      (fst (reload_module h mn w) \<noteq> Returns True \<longrightarrow>
         modules_table (snd (reload_module h mn w)) = modules_table w) \<and>
      (fst (reload_module h mn w) = Returns True \<longrightarrow>
         modules_table (snd (reload_module h mn w)) =
           (modules_table w)(mn \<mapsto> r\<lparr>is_active := True, updated_at := clock w\<rparr>)))"
proof (intro conjI impI)
  assume a: "modules_table w mn = None \<or> next_fault w \<noteq> None"
  have "fst (get_module mn w) = None"
    using a by (cases "next_fault w") (auto simp: get_module_lookup(1))
  note nfd = reload_module_not_found [OF this, of h]
  from nfd show "fst (reload_module h mn w) = Returns False" by simp
  from nfd show "loaded_modules (snd (reload_module h mn w)) = loaded_modules w" by simp
  from nfd show "sys_modules (snd (reload_module h mn w)) = sys_modules w" by simp
  from nfd show "modules_table (snd (reload_module h mn w)) = modules_table w" by simp
  from nfd show "files (snd (reload_module h mn w)) = files w" by simp
  from nfd show "error_logs (snd (reload_module h mn w)) = error_logs w" by simp
  from nfd show "subprocess_calls (snd (reload_module h mn w)) = subprocess_calls w" by simp
next
  assume a: "modules_table w mn = Some r \<and> next_fault w = None"
  then have r: "modules_table w mn = Some r" and nf: "next_fault w = None" by simp_all
  let ?wg = "snd (get_module mn w)"
  let ?wu = "snd (unload_module mn ?wg)"
  obtain res w2 where l: "load_module h (file_path r) mn (is_system r) ?wu = (res, w2)"
    by (cases "load_module h (file_path r) mn (is_system r) ?wu")
  note fd = reload_module_found [OF r nf l]
  note le = load_module_effect [OF l]
  have gr: "loaded_modules ?wg = loaded_modules w" "files ?wg = files w"
           "modules_table ?wg = modules_table w" "clock ?wg = clock w"
    using get_module_result [of mn w "fst (get_module mn w)" ?wg] by simp_all
  have ur: "loaded_modules ?wu = (loaded_modules w)(mn := None)" "files ?wu = files w"
           "modules_table ?wu = modules_table w" "clock ?wu = clock w"
           "db_faults ?wu = db_faults ?wg"
    using unload_module_result [of mn ?wg "fst (unload_module mn ?wg)" ?wu] gr by simp_all
  have ri: "registered_info h (file_path r) ?wu = registered_info h (file_path r) w"
    using ur by (intro registered_info_cong) simp
  have rw: "registry_write_fault mn ?wu = registry_write_fault mn ?wg"
    using ur gr by (intro registry_write_fault_cong) simp_all
  show "\<forall>b. fst (load_module h (file_path r) mn (is_system r) ?wu) = Returns b \<longrightarrow>
           reload_module h mn w = load_module h (file_path r) mn (is_system r) ?wu"
    using fd l by simp
  show "loaded_modules (snd (reload_module h mn w)) =
        (case registered_info h (file_path r) w of
           None \<Rightarrow> (loaded_modules w)(mn := None)
         | Some mi \<Rightarrow> (loaded_modules w)(mn \<mapsto> mi\<lparr>info_is_system := is_system r\<rparr>))"
    using fd le ri ur by (cases "registered_info h (file_path r) w") simp_all
  show "fst (reload_module h mn w) \<noteq> Returns True \<longleftrightarrow>
         registered_info h (file_path r) w = None \<or>
         registry_write_fault mn (snd (get_module mn w)) \<noteq> None"
    using fd le ri rw by auto
  { assume "fst (reload_module h mn w) \<noteq> Returns True"
    with fd le ur show "modules_table (snd (reload_module h mn w)) = modules_table w" by simp }
  { assume "fst (reload_module h mn w) = Returns True"
    with fd le ur r
    show "modules_table (snd (reload_module h mn w)) =
           (modules_table w)(mn \<mapsto> r\<lparr>is_active := True, updated_at := clock w\<rparr>)" by simp }
qed

theorem reload_module_effect_witness:
  "fst (reload_module plain_host ''hello''
          (world_running_hello\<lparr>db_faults := [Some disk_full]\<rparr>)) = Returns False \<and>
   loaded_modules (snd (reload_module plain_host ''hello''
          (world_running_hello\<lparr>db_faults := [Some disk_full]\<rparr>)))
     = [''hello'' \<mapsto> hello_info\<lparr>description := ''old version''\<rparr>] \<and>
   fst (reload_module plain_host ''hello''
          (world_running_hello\<lparr>files := [hello_path \<mapsto> hello_module\<lparr>has_register := False\<rparr>]\<rparr>))
     \<noteq> Returns True \<and>
   loaded_modules (snd (reload_module plain_host ''hello''
          (world_running_hello\<lparr>files := [hello_path \<mapsto> hello_module\<lparr>has_register := False\<rparr>]\<rparr>)))
     = Map.empty \<and>
   modules_table (snd (reload_module plain_host ''hello''
          (world_running_hello\<lparr>files := [hello_path \<mapsto> hello_module\<lparr>has_register := False\<rparr>]\<rparr>)))
     = [''hello'' \<mapsto> hello_row]"
proof -
  let ?u = "world_running_hello\<lparr>db_faults := [Some disk_full]\<rparr>"
  let ?w = "world_running_hello\<lparr>files := [hello_path \<mapsto> hello_module\<lparr>has_register := False\<rparr>]\<rparr>"
  have u: "next_fault ?u \<noteq> None"
          "loaded_modules ?u = [''hello'' \<mapsto> hello_info\<lparr>description := ''old version''\<rparr>]"
    by (simp_all add: next_fault_def world_running_hello_def fresh_world_def)
  have w: "modules_table ?w ''hello'' = Some hello_row" "next_fault ?w = None"
          "modules_table ?w = [''hello'' \<mapsto> hello_row]"
          "loaded_modules ?w = [''hello'' \<mapsto> hello_info\<lparr>description := ''old version''\<rparr>]"
    by (simp_all add: next_fault_def world_running_hello_def fresh_world_def)
  have ri: "registered_info plain_host (file_path hello_row) ?w = None"
    by (simp add: registered_info_def hello_row_def hello_module_def world_running_hello_def)
  from reload_module_effect [where w = ?u and mn = "''hello''" and h = plain_host] u
  have 1: "fst (reload_module plain_host ''hello'' ?u) = Returns False \<and>
           loaded_modules (snd (reload_module plain_host ''hello'' ?u))
             = [''hello'' \<mapsto> hello_info\<lparr>description := ''old version''\<rparr>]" by simp
  from reload_module_effect [where w = ?w and mn = "''hello''" and h = plain_host
                               and r = hello_row] w ri
  have 2: "fst (reload_module plain_host ''hello'' ?w) \<noteq> Returns True \<and>
           loaded_modules (snd (reload_module plain_host ''hello'' ?w)) = Map.empty \<and>
           modules_table (snd (reload_module plain_host ''hello'' ?w)) = [''hello'' \<mapsto> hello_row]"
    by simp
  from 1 2 show ?thesis by simp
qed

theorem reload_module_registry_fault_counterexample:
  "fst (reload_module plain_host ''hello''
          (world_running_hello\<lparr>db_faults := [None, Some disk_full]\<rparr>)) = Returns False \<and>
   loaded_modules (snd (reload_module plain_host ''hello''
          (world_running_hello\<lparr>db_faults := [None, Some disk_full]\<rparr>))) ''hello''
     = Some hello_info"
  by (simp add: reload_module_def get_module_def unload_module_def eval_defs
                world_running_hello_def hello_row_def)

section \<open>The installer\<close>

text \<open>
  Claim C7, as amended. \<^verbatim>\<open>_install_dependencies\<close> runs
  \<^verbatim>\<open>[sys.executable, "-m", "pip", "install", dep]\<close> with \<^verbatim>\<open>timeout=300\<close> for the
  specifiers in list order, up to and including the first one whose run does not
  return code 0 (it returns another code, or it raises, as on a timeout), and for no
  later one; it runs nothing else, so what was installed stays. It returns a boolean
  only: \<^verbatim>\<open>True\<close> exactly when every specifier installed. The failure is reported in
  the log: for a non-zero return code an \<^verbatim>\<open>ERROR\<close> line with the specifier and the
  installer's \<^verbatim>\<open>stderr\<close>; for a run that raised an \<^verbatim>\<open>ERROR\<close> line with the module
  name and the exception, without the installer's output. The Catalog, the Registry,
  the files and the Error Sink are not touched.
\<close>

theorem install_dependencies_order:
  "fst (install_dependencies h deps mn w) = list_all (installs h) deps \<and>
   subprocess_calls (snd (install_dependencies h deps mn w)) =
     subprocess_calls w @
     map (\<lambda>d. ([sys_executable h, ''-m'', ''pip'', ''install'', d], 300))
       (takeWhile (installs h) deps @ take 1 (dropWhile (installs h) deps)) \<and>
   log (snd (install_dependencies h deps mn w)) =
     log w @ [(INFO, InstallingDependencies mn deps),
              (case dropWhile (installs h) deps of
                 [] \<Rightarrow> (INFO, DependenciesInstalled mn)
               | d # ds \<Rightarrow>
                   (case subprocess_run h [sys_executable h, ''-m'', ''pip'', ''install'', d] 300 of
                      CompletedProcess rc out err \<Rightarrow> (ERROR, FailedToInstall d err)
                    | RunRaises e \<Rightarrow> (ERROR, ErrorInstallingDependencies mn e)))] \<and>
   loaded_modules (snd (install_dependencies h deps mn w)) = loaded_modules w \<and>
   modules_table (snd (install_dependencies h deps mn w)) = modules_table w \<and>
   files (snd (install_dependencies h deps mn w)) = files w \<and>
   error_logs (snd (install_dependencies h deps mn w)) = error_logs w"
proof -
  let ?w0 = "logger_info (InstallingDependencies mn deps) w"
  have d: "install_dependencies h deps mn w = install_each h deps mn ?w0"
    by (simp add: install_dependencies_def)
  have fr: "loaded_modules (snd (install_each h deps mn ?w0)) = loaded_modules w \<and>
            modules_table (snd (install_each h deps mn ?w0)) = modules_table w \<and>
            files (snd (install_each h deps mn ?w0)) = files w \<and>
            error_logs (snd (install_each h deps mn ?w0)) = error_logs w"
    using install_each_frame [of h deps mn ?w0 "fst (install_each h deps mn ?w0)"
                                 "snd (install_each h deps mn ?w0)"] by simp
  have lg: "log (snd (install_each h deps mn ?w0)) =
     log w @ [(INFO, InstallingDependencies mn deps),
              (case dropWhile (installs h) deps of
                 [] \<Rightarrow> (INFO, DependenciesInstalled mn)
               | d # ds \<Rightarrow>
                   (case subprocess_run h [sys_executable h, ''-m'', ''pip'', ''install'', d] 300 of
                      CompletedProcess rc out err \<Rightarrow> (ERROR, FailedToInstall d err)
                    | RunRaises e \<Rightarrow> (ERROR, ErrorInstallingDependencies mn e)))]"
  proof (cases "dropWhile (installs h) deps")
    case Nil
    show ?thesis unfolding install_each_log Nil by simp
  next
    case (Cons d ds)
    show ?thesis unfolding install_each_log Cons
      by (cases "subprocess_run h [sys_executable h, ''-m'', ''pip'', ''install'', d] 300")
         (simp_all add: install_report_def pip_install_def)
  qed
  have cl: "subprocess_calls (snd (install_each h deps mn ?w0)) =
     subprocess_calls w @
     map (\<lambda>d. ([sys_executable h, ''-m'', ''pip'', ''install'', d], 300))
       (takeWhile (installs h) deps @ take 1 (dropWhile (installs h) deps))"
    by (simp add: install_each_calls pip_install_def)
  from d fr lg cl show ?thesis by (simp add: install_each_result)
qed

theorem install_dependencies_report_counterexample:
  "install_dependencies broken_host [''requests'', ''aiohttp''] ''hello'' fresh_world =
     (False,
      fresh_world\<lparr>subprocess_calls := [([''python3'', ''-m'', ''pip'', ''install'', ''requests''], 300)],
                   log := [(INFO, InstallingDependencies ''hello'' [''requests'', ''aiohttp'']),
                           (ERROR, ErrorInstallingDependencies ''hello'' no_interpreter)]\<rparr>) \<and>
   fst (install_dependencies pip_host [''requests'', ''nosuchpkg'', ''aiohttp''] ''hello'' fresh_world)
     = False \<and>
   log (snd (install_dependencies pip_host [''requests'', ''nosuchpkg'', ''aiohttp''] ''hello''
               fresh_world)) =
     [(INFO, InstallingDependencies ''hello'' [''requests'', ''nosuchpkg'', ''aiohttp'']),
      (ERROR, FailedToInstall ''nosuchpkg'' ''ERROR: No matching distribution found'')]"
  by (simp add: install_dependencies_def broken_host_def pip_host_def failing_pip_def
                sample_host_def pip_install_def fresh_world_def logger_info_def logger_error_def)

lemma provision_calls:
  "subprocess_calls (snd (provision h a mn w)) =
     subprocess_calls w @
     (case DEPENDENCIES a of
        None \<Rightarrow> []
      | Some deps \<Rightarrow>
          map (\<lambda>d. (pip_install h d, 300))
            (takeWhile (installs h) deps @ take 1 (dropWhile (installs h) deps)))"
proof (cases "DEPENDENCIES a")
  case None
  then show ?thesis by (simp add: provision_def)
next
  case (Some deps)
  then show ?thesis
    by (cases "deps = []")
       (simp_all add: provision_def install_dependencies_def install_each_calls logger_info_def)
qed

lemma log_error_calls:
  "subprocess_calls (log_error t m n tb w) = subprocess_calls w"
  by (cases "db_faults w"; cases "hd (db_faults w)";
      simp add: log_error_def db_call_def logger_error_def)

lemma load_module_try_calls:
  "subprocess_calls (snd (load_module_try h fp mn sys w)) =
     subprocess_calls w @
     (case files w fp of
        None \<Rightarrow> []
      | Some a \<Rightarrow>
          if has_loader a \<and> exec_module a = None \<and> has_register a
          then (case DEPENDENCIES a of
                  None \<Rightarrow> []
                | Some deps \<Rightarrow>
                    map (\<lambda>d. (pip_install h d, 300))
                      (takeWhile (installs h) deps @ take 1 (dropWhile (installs h) deps)))
          else [])"
proof (cases "files w fp")
  case None
  then show ?thesis by (simp add: load_module_try_def logger_error_def)
next
  case (Some a)
  note fl = this
  let ?w0 = "w\<lparr>sys_modules := (sys_modules w)(mn \<mapsto> ArtifactModule a)\<rparr>"
  show ?thesis
  proof (cases "has_loader a \<and> exec_module a = None \<and> has_register a")
    case False
    with fl show ?thesis
      by (cases "exec_module a"; cases "has_loader a"; cases "has_register a")
         (auto simp: load_module_try_def logger_error_def)
  next
    case True
    obtain ok w2 where p: "provision h a mn ?w0 = (ok, w2)" by (cases "provision h a mn ?w0")
    from provision_calls [of h a mn ?w0] p
    have c2: "subprocess_calls w2 =
     subprocess_calls w @
     (case DEPENDENCIES a of
        None \<Rightarrow> []
      | Some deps \<Rightarrow>
          map (\<lambda>d. (pip_install h d, 300))
            (takeWhile (installs h) deps @ take 1 (dropWhile (installs h) deps)))" by simp
    have "subprocess_calls (snd (load_module_try h fp mn sys w)) = subprocess_calls w2"
    proof (cases ok)
      case False
      with fl True p show ?thesis by (simp add: load_module_try_def)
    next
      case ok: True
      show ?thesis
      proof (cases "register a")
        case (Inl r)
        with fl True p ok show ?thesis by (simp add: load_module_try_def)
      next
        case (Inr v)
        show ?thesis
        proof (cases v)
          case NotModuleInfo
          with Inr fl True p ok show ?thesis by (simp add: load_module_try_def logger_error_def)
        next
          case (IsModuleInfo mi)
          let ?w3 = "w2\<lparr>loaded_modules := (loaded_modules w2)(mn \<mapsto> mi\<lparr>info_is_system := sys\<rparr>)\<rparr>"
          obtain ra w4 where a: "add_module mn fp sys ?w3 = (ra, w4)"
            by (cases "add_module mn fp sys ?w3")
          from add_module_result [OF a] have "subprocess_calls w4 = subprocess_calls w2" by simp
          with a IsModuleInfo Inr fl True p ok show ?thesis
            by (cases ra) (simp_all add: load_module_try_def logger_info_def)
        qed
      qed
    qed
    with c2 fl True show ?thesis by simp
  qed
qed

lemma load_module_calls:
  "subprocess_calls (snd (load_module h fp mn sys w)) =
     subprocess_calls (snd (load_module_try h fp mn sys w))"
proof -
  obtain r w1 where t: "load_module_try h fp mn sys w = (r, w1)"
    by (cases "load_module_try h fp mn sys w")
  show ?thesis
  proof (cases r)
    case (Inr b)
    with t show ?thesis by (simp add: load_module_def)
  next
    case (Inl x)
    show ?thesis
    proof (cases x)
      case (BaseExceptionInstance e)
      with Inl t show ?thesis by (simp add: load_module_def)
    next
      case (ExceptionInstance e s)
      show ?thesis
      proof (cases s)
        case (Some r')
        with ExceptionInstance Inl t show ?thesis by (simp add: load_module_def)
      next
        case None
        let ?w2 = "logger_error (ErrorLoadingModule mn e) w1"
        show ?thesis
        proof (cases "ErrorLog_shadow ?w2")
          case None
          with \<open>s = None\<close> ExceptionInstance Inl t show ?thesis
            by (simp add: load_module_def Let_def log_error_calls)
        next
          case (Some a)
          with \<open>s = None\<close> ExceptionInstance Inl t show ?thesis
            by (cases "ErrorLog_attr a"; cases "the (ErrorLog_attr a)")
               (simp_all add: load_module_def Let_def)
        qed
      qed
    qed
  qed
qed

section \<open>When the installer runs during a load\<close>

text \<open>
  Claim C8, as amended. The installer runs during a load exactly for a module that
  was executed without raising, has \<^verbatim>\<open>register\<close>, and has a module-level attribute
  \<^verbatim>\<open>DEPENDENCIES\<close>: it runs for the specifiers of that list, in order, up to the first
  that does not install (for none when the list is empty). The descriptor that
  \<^verbatim>\<open>register\<close> returns plays no part: its \<^verbatim>\<open>dependencies\<close> are never read, and the
  installer runs before \<^verbatim>\<open>register\<close> is awaited. When a specifier of \<^verbatim>\<open>DEPENDENCIES\<close>
  does not install, the load returns \<^verbatim>\<open>False\<close> whatever \<^verbatim>\<open>register\<close> would have
  done, and the Catalog, the Registry and the Error Sink are as before.
\<close>

theorem load_module_provisioning:
  "subprocess_calls (snd (load_module h fp mn sys w)) =
     subprocess_calls w @
     (case files w fp of
        None \<Rightarrow> []
      | Some a \<Rightarrow>
          if has_loader a \<and> exec_module a = None \<and> has_register a
          then (case DEPENDENCIES a of
                  None \<Rightarrow> []
                | Some deps \<Rightarrow>
                    map (\<lambda>d. ([sys_executable h, ''-m'', ''pip'', ''install'', d], 300))
                      (takeWhile (installs h) deps @ take 1 (dropWhile (installs h) deps)))
          else []) \<and>
   (files w fp = Some a \<and> has_loader a \<and> exec_module a = None \<and> has_register a \<and>
    DEPENDENCIES a = Some deps \<and> \<not> list_all (installs h) deps \<longrightarrow>
      fst (load_module h fp mn sys w) = Returns False \<and>
      loaded_modules (snd (load_module h fp mn sys w)) = loaded_modules w \<and>
      modules_table (snd (load_module h fp mn sys w)) = modules_table w \<and>
      error_logs (snd (load_module h fp mn sys w)) = error_logs w)"
proof (intro conjI impI)
  show "subprocess_calls (snd (load_module h fp mn sys w)) =
     subprocess_calls w @
     (case files w fp of
        None \<Rightarrow> []
      | Some a \<Rightarrow>
          if has_loader a \<and> exec_module a = None \<and> has_register a
          then (case DEPENDENCIES a of
                  None \<Rightarrow> []
                | Some deps \<Rightarrow>
                    map (\<lambda>d. ([sys_executable h, ''-m'', ''pip'', ''install'', d], 300))
                      (takeWhile (installs h) deps @ take 1 (dropWhile (installs h) deps)))
          else [])"
    unfolding load_module_calls load_module_try_calls pip_install_def by simp
next
  let ?w0 = "w\<lparr>sys_modules := (sys_modules w)(mn \<mapsto> ArtifactModule a)\<rparr>"
  assume a: "files w fp = Some a \<and> has_loader a \<and> exec_module a = None \<and> has_register a \<and>
    DEPENDENCIES a = Some deps \<and> \<not> list_all (installs h) deps"
  obtain res w1 where t: "load_module_try h fp mn sys w = (res, w1)"
    by (cases "load_module_try h fp mn sys w")
  from a provision_result [of h a mn ?w0] obtain w2 where "provision h a mn ?w0 = (False, w2)"
    by (cases "provision h a mn ?w0") auto
  with a t have r: "res = Inr False" by (simp add: load_module_try_def)
  with t have l: "load_module h fp mn sys w = (Returns False, w1)" by (simp add: load_module_def)
  from a have ri: "registered_info h fp w = None" by (simp add: registered_info_def)
  note st = load_module_try_state [OF t]
  from l show "fst (load_module h fp mn sys w) = Returns False" by simp
  from l st ri show "loaded_modules (snd (load_module h fp mn sys w)) = loaded_modules w" by simp
  from l st ri show "modules_table (snd (load_module h fp mn sys w)) = modules_table w" by simp
  from l st show "error_logs (snd (load_module h fp mn sys w)) = error_logs w" by simp
qed

theorem load_module_provisioning_witness:
  "fst (load_module pip_host hello_path ''hello'' False
     (world_running_hello\<lparr>files := [hello_path \<mapsto>
         hello_module\<lparr>DEPENDENCIES := Some [''requests'', ''nosuchpkg'', ''aiohttp''],
                       register := Inl (BaseExceptionInstance system_exit)\<rparr>]\<rparr>))
   = Returns False \<and>
   loaded_modules (snd (load_module pip_host hello_path ''hello'' False
     (world_running_hello\<lparr>files := [hello_path \<mapsto>
         hello_module\<lparr>DEPENDENCIES := Some [''requests'', ''nosuchpkg'', ''aiohttp''],
                       register := Inl (BaseExceptionInstance system_exit)\<rparr>]\<rparr>)))
   = [''hello'' \<mapsto> hello_info\<lparr>description := ''old version''\<rparr>] \<and>
   subprocess_calls (snd (load_module pip_host hello_path ''hello'' False
     (world_running_hello\<lparr>files := [hello_path \<mapsto>
         hello_module\<lparr>DEPENDENCIES := Some [''requests'', ''nosuchpkg'', ''aiohttp''],
                       register := Inl (BaseExceptionInstance system_exit)\<rparr>]\<rparr>)))
   = [([''python3'', ''-m'', ''pip'', ''install'', ''requests''], 300),
      ([''python3'', ''-m'', ''pip'', ''install'', ''nosuchpkg''], 300)]"
proof -
  let ?a = "hello_module\<lparr>DEPENDENCIES := Some [''requests'', ''nosuchpkg'', ''aiohttp''],
                          register := Inl (BaseExceptionInstance system_exit)\<rparr>"
  let ?w = "world_running_hello\<lparr>files := [hello_path \<mapsto> ?a]\<rparr>"
  have i: "installs pip_host ''requests''" "\<not> installs pip_host ''nosuchpkg''"
    by (simp_all add: installs_def pip_host_def sample_host_def failing_pip_def pip_install_def)
  have h: "files ?w hello_path = Some ?a \<and> has_loader ?a \<and> exec_module ?a = None \<and>
           has_register ?a \<and>
           DEPENDENCIES ?a = Some [''requests'', ''nosuchpkg'', ''aiohttp''] \<and>
           \<not> list_all (installs pip_host) [''requests'', ''nosuchpkg'', ''aiohttp'']"
    using i by (simp add: hello_module_def)
  have s: "loaded_modules ?w = [''hello'' \<mapsto> hello_info\<lparr>description := ''old version''\<rparr>]"
          "subprocess_calls ?w = []" "sys_executable pip_host = ''python3''"
    by (simp_all add: world_running_hello_def fresh_world_def pip_host_def sample_host_def)
  from load_module_provisioning
         [where h = pip_host and fp = hello_path and mn = "''hello''" and sys = False
            and w = ?w and a = ?a and deps = "[''requests'', ''nosuchpkg'', ''aiohttp'']"] h s i
  show ?thesis by simp
qed

theorem load_module_descriptor_dependencies_counterexample:
  "fst (load_module pip_host hello_path ''hello'' False
     (fresh_world\<lparr>files := [hello_path \<mapsto>
                                hello_module\<lparr>register := Inr (IsModuleInfo declaring_info)\<rparr>]\<rparr>))
   = Returns True \<and>
   subprocess_calls (snd (load_module pip_host hello_path ''hello'' False
     (fresh_world\<lparr>files := [hello_path \<mapsto>
                                hello_module\<lparr>register := Inr (IsModuleInfo declaring_info)\<rparr>]\<rparr>)))
   = [] \<and>
   dependencies declaring_info = [''requests''] \<and>
   dependencies hello_info = [] \<and>
   subprocess_calls (snd (load_module pip_host hello_path ''hello'' False
     (fresh_world\<lparr>files := [hello_path \<mapsto>
                                hello_module\<lparr>DEPENDENCIES := Some [''requests'']\<rparr>]\<rparr>)))
   = [([''python3'', ''-m'', ''pip'', ''install'', ''requests''], 300)]"
  by (simp add: eval_defs declaring_info_def pip_host_def failing_pip_def
                install_dependencies_def pip_install_def)

lemma is_admin_result:
  assumes "is_admin h uid w = (b, w1)"
  shows "loaded_modules w1 = loaded_modules w \<and> modules_table w1 = modules_table w \<and>
         files w1 = files w \<and> sys_modules w1 = sys_modules w \<and>
         error_logs w1 = error_logs w \<and> subprocess_calls w1 = subprocess_calls w"
proof (cases "uid = admin_id h")
  case True
  with assms show ?thesis by (simp add: is_admin_def)
next
  case False
  obtain f w2 where c: "db_call w = (f, w2)" by (cases "db_call w")
  note fr = db_call_frame [OF c]
  from assms False c fr show ?thesis
    by (cases f) (auto simp: is_admin_def Admin_is_admin_def)
qed

section \<open>The overwrite question\<close>

text \<open>
  Claim C6. A load request (\<^verbatim>\<open>load_module_handler\<close>) for a document \<^verbatim>\<open><name>.py\<close>
  whose name is in the Catalog changes neither the Catalog nor \<^verbatim>\<open>sys.modules\<close>, the
  Registry, the files, the Error Sink or the installer history: an administrator is
  answered with the overwrite question for the name (buttons
  \<^verbatim>\<open>overwrite_lm_<name>\<close> and \<^verbatim>\<open>cancel_load\<close>), anyone else with the refusal.
  \<^verbatim>\<open>cancel_load_callback\<close> afterwards changes nothing at all, so the Catalog, the
  Registry and the files are still those from before the request.
\<close>

theorem load_module_handler_conflict:
  assumes "reply_document m = Some doc" and "endswith (file_name doc) ''.py''"
    and "strip_last3 (file_name doc) \<in> dom (loaded_modules w)"
  shows "loaded_modules (snd (load_module_handler h m w)) = loaded_modules w \<and>
         sys_modules (snd (load_module_handler h m w)) = sys_modules w \<and>
         modules_table (snd (load_module_handler h m w)) = modules_table w \<and>
         files (snd (load_module_handler h m w)) = files w \<and>
         error_logs (snd (load_module_handler h m w)) = error_logs w \<and>
         subprocess_calls (snd (load_module_handler h m w)) = subprocess_calls w \<and>
         fst (load_module_handler h m w) =
           (if fst (is_admin h (from_user_id m) w)
            then Returns (ModuleConflict (strip_last3 (file_name doc))
                            (''overwrite_lm_'' @ strip_last3 (file_name doc)))
            else Returns NotAdmin) \<and>
         cancel_load_callback (snd (load_module_handler h m w)) =
           (Canceled, snd (load_module_handler h m w)) \<and>
         loaded_modules (snd (cancel_load_callback (snd (load_module_handler h m w))))
           = loaded_modules w \<and>
         modules_table (snd (cancel_load_callback (snd (load_module_handler h m w))))
           = modules_table w \<and>
         files (snd (cancel_load_callback (snd (load_module_handler h m w)))) = files w"
proof -
  obtain b w1 where a: "is_admin h (from_user_id m) w = (b, w1)"
    by (cases "is_admin h (from_user_id m) w")
  note ar = is_admin_result [OF a]
  have l: "load_module_handler h m w =
             (if b then Returns (ModuleConflict (strip_last3 (file_name doc))
                                   (''overwrite_lm_'' @ strip_last3 (file_name doc)))
              else Returns NotAdmin, w1)"
    using a ar assms by (cases b) (simp_all add: load_module_handler_def Let_def)
  from l a ar show ?thesis by (simp add: cancel_load_callback_def)
qed

theorem load_module_handler_conflict_witness:
  "load_module_handler plain_host hello_upload world_running_hello =
     (Returns (ModuleConflict ''hello'' ''overwrite_lm_hello''), world_running_hello) \<and>
   cancel_load_callback world_running_hello = (Canceled, world_running_hello)"
proof -
  let ?doc = "\<lparr>file_name = ''hello.py'', file_id = ''file-1''\<rparr>"
  have h: "reply_document hello_upload = Some ?doc" "endswith (file_name ?doc) ''.py''"
          "strip_last3 (file_name ?doc) \<in> dom (loaded_modules world_running_hello)"
    by (simp_all add: hello_upload_def endswith_def strip_last3_def world_running_hello_def
                      fresh_world_def)
  have a: "is_admin plain_host (from_user_id hello_upload) world_running_hello
             = (True, world_running_hello)"
    by (simp add: is_admin_def hello_upload_def plain_host_def sample_host_def)
  have s: "snd (load_module_handler plain_host hello_upload world_running_hello)
             = world_running_hello"
    using h a by (simp add: load_module_handler_def Let_def)
  from load_module_handler_conflict [OF h, of plain_host] a s
  have "fst (load_module_handler plain_host hello_upload world_running_hello)
          = Returns (ModuleConflict ''hello'' ''overwrite_lm_hello'') \<and>
        cancel_load_callback world_running_hello = (Canceled, world_running_hello)"
    by (simp add: strip_last3_def)
  with s show ?thesis by (simp add: prod_eq_iff)
qed






section \<open>Deleting a module\<close>




end
